theory Spec2Isabelle
  imports Main
begin

section \<open>CuGraphRGCNConv: the relational graph convolution layer of rgcn\_conv.py\<close>

text \<open>
  The development embeds \<^verbatim>\<open>torch_geometric/nn/conv/cugraph/rgcn_conv.py\<close>.
  Tensors are a shape with row-major data over a scalar type \<open>'a\<close> (a semiring
  standing for the floating-point numbers of the program); every raise of the
  Python code is a value \<open>Inl e\<close> of \<open>error + _\<close>. The aggregation kernel of
  the external library is a parameter of the model.
\<close>

subsection \<open>Errors and results\<close>

datatype error =
  ValueError | RuntimeError | IndexError | NameError | ImportError | KernelError

definition bind_res :: "error + 'b \<Rightarrow> ('b \<Rightarrow> error + 'c) \<Rightarrow> error + 'c" where
  "bind_res m f = (case m of Inl e \<Rightarrow> Inl e | Inr v \<Rightarrow> f v)"

subsection \<open>Tensors and the torch operations the layer uses\<close>

record 'a tensor =
  shape :: "nat list"
  data :: "'a list"

definition numel :: "nat list \<Rightarrow> nat" where
  "numel s = prod_list s"

text \<open>\<^verbatim>\<open>torch.Tensor(d1, ..., dk)\<close>: uninitialised memory of the given shape; a
  negative dimension raises. What the memory holds is the parameter \<open>junk\<close>.\<close>

definition torch_Tensor :: "(nat \<Rightarrow> 'a) \<Rightarrow> int list \<Rightarrow> error + 'a tensor" where
  "torch_Tensor junk dims =
     (if list_ex (\<lambda>d. d < 0) dims then Inl RuntimeError
      else Inr \<lparr>shape = map nat dims,
                data = map junk [0 ..< numel (map nat dims)]\<rparr>)"

text \<open>\<^verbatim>\<open>torch.eye(n)\<close>: the n x n identity; a negative n raises.\<close>

definition eye_data :: "nat \<Rightarrow> ('a::semiring_1) list" where
  "eye_data n = concat (map (\<lambda>i. map (\<lambda>j. if i = j then 1 else 0) [0 ..< n]) [0 ..< n])"

definition torch_eye :: "int \<Rightarrow> error + ('a::semiring_1) tensor" where
  "torch_eye n =
     (if n < 0 then Inl RuntimeError
      else Inr \<lparr>shape = [nat n, nat n], data = eye_data (nat n)\<rparr>)"

text \<open>\<^verbatim>\<open>x.size(0)\<close>: raises on a tensor without dimensions.\<close>

definition size0 :: "'a tensor \<Rightarrow> error + nat" where
  "size0 t = (case shape t of [] \<Rightarrow> Inl IndexError | n # _ \<Rightarrow> Inr n)"

text \<open>\<^verbatim>\<open>t.view(-1, c)\<close>: the same data under the shape (numel / c, c). torch raises
  when c is not positive (a second -1, a negative size, or the ambiguous 0) and when c
  does not divide the number of elements.\<close>

definition view_rows :: "'a tensor \<Rightarrow> int \<Rightarrow> error + 'a tensor" where
  "view_rows t c =
     (if c \<le> 0 then Inl RuntimeError
      else if numel (shape t) mod nat c \<noteq> 0 then Inl RuntimeError
      else Inr \<lparr>shape = [numel (shape t) div nat c, nat c], data = data t\<rparr>)"

text \<open>\<^verbatim>\<open>a @ w\<close> for a two-dimensional right operand (the only one the layer builds):
  the last dimension of \<open>a\<close> is contracted with the first of \<open>w\<close>, the leading dimensions
  of \<open>a\<close> are kept. A mismatch raises.\<close>

definition rows_of :: "nat \<Rightarrow> nat \<Rightarrow> 'a list \<Rightarrow> 'a list list" where
  "rows_of n m d = map (\<lambda>i. take m (drop (i * m) d)) [0 ..< n]"

definition row_times :: "('a::semiring_1) list \<Rightarrow> nat \<Rightarrow> nat \<Rightarrow> 'a list \<Rightarrow> 'a list" where
  "row_times r m c w =
     map (\<lambda>j. sum_list (map (\<lambda>k. r ! k * w ! (k * c + j)) [0 ..< m])) [0 ..< c]"

definition matmul :: "('a::semiring_1) tensor \<Rightarrow> 'a tensor \<Rightarrow> error + 'a tensor" where
  "matmul a w =
     (case (rev (shape a), shape w) of
        (m # ds, [m', c]) \<Rightarrow>
          if m = m'
          then Inr \<lparr>shape = rev ds @ [c],
                    data = concat (map (\<lambda>r. row_times r m c (data w))
                                       (rows_of (numel ds) m (data a)))\<rparr>
          else Inl RuntimeError
      | _ \<Rightarrow> Inl RuntimeError)"

text \<open>\<^verbatim>\<open>a + b\<close> with torch's broadcasting: shapes are aligned at their last
  dimension; two sizes are compatible when equal or when one of them is 1.\<close>

fun broadcast_rev :: "nat list \<Rightarrow> nat list \<Rightarrow> nat list option" where
  "broadcast_rev [] ys = Some ys"
| "broadcast_rev (x # xs) [] = Some (x # xs)"
| "broadcast_rev (x # xs) (y # ys) =
     (if x = y \<or> y = 1 then map_option ((#) x) (broadcast_rev xs ys)
      else if x = 1 then map_option ((#) y) (broadcast_rev xs ys)
      else None)"

definition broadcast_shapes :: "nat list \<Rightarrow> nat list \<Rightarrow> nat list option" where
  "broadcast_shapes s t = map_option rev (broadcast_rev (rev s) (rev t))"

definition pad_shape :: "nat \<Rightarrow> nat list \<Rightarrow> nat list" where
  "pad_shape k s = replicate (k - length s) 1 @ s"

fun expand :: "nat list \<Rightarrow> nat list \<Rightarrow> 'a list \<Rightarrow> 'a list" where
  "expand (a # s) (r # rs) d =
     (let blocks = concat (map (\<lambda>i. expand s rs (take (prod_list s) (drop (i * prod_list s) d)))
                               [0 ..< a])
      in if a = r then blocks else concat (replicate r blocks))"
| "expand _ _ d = d"

definition torch_add :: "('a::semiring_1) tensor \<Rightarrow> 'a tensor \<Rightarrow> error + 'a tensor" where
  "torch_add a b =
     (case broadcast_shapes (shape a) (shape b) of
        None \<Rightarrow> Inl RuntimeError
      | Some r \<Rightarrow>
          Inr \<lparr>shape = r,
               data = map2 (+) (expand (pad_shape (length r) (shape a)) r (data a))
                               (expand (pad_shape (length r) (shape b)) r (data b))\<rparr>)"

subsection \<open>The layer, the graph handle and the optional kernel\<close>

record 'a layer =
  in_channels :: int
  out_channels :: int
  num_relations :: int
  num_bases :: "int option"
  aggr :: string
  root_weight :: bool
  weight :: "'a tensor"
  comp :: "'a tensor option"
  bias :: "'a tensor option"

type_synonym csc = "int list \<times> int list"

record typed_graph =
  g_num_nodes :: nat
  g_csc :: csc
  g_edge_type :: "int list"
  g_num_relations :: int
  g_max_num_neighbors :: "int option"

text \<open>Modelled from the spec: \<^verbatim>\<open>CuGraphModule.get_typed_cugraph\<close> is not in this
  file. The spec gives it the contract
  \<^verbatim>\<open>build(num_nodes, csc_pair, edge_type, num_relations, max_num_neighbors_or_none)\<close>
  returning an opaque handle built from exactly these values; the handle is the record of
  them.\<close>

definition get_typed_cugraph ::
  "nat \<Rightarrow> csc \<Rightarrow> int list \<Rightarrow> int \<Rightarrow> int option \<Rightarrow> typed_graph" where
  "get_typed_cugraph n c et r mnn =
     \<lparr>g_num_nodes = n, g_csc = c, g_edge_type = et, g_num_relations = r,
      g_max_num_neighbors = mnn\<rparr>"

text \<open>The external kernel \<^verbatim>\<open>agg_hg_basis_n2n_post\<close>, called as
  \<^verbatim>\<open>RGCNConvAgg(x, comp, graph, concat_own=..., norm_by_out_degree=...)\<close>.\<close>

type_synonym 'a kernel =
  "'a tensor \<Rightarrow> 'a tensor option \<Rightarrow> typed_graph \<Rightarrow> bool \<Rightarrow> bool \<Rightarrow> error + 'a tensor"

text \<open>The module's global namespace, as far as the layer reads it.\<close>

record 'a globals =
  RGCNConvAgg :: "'a kernel option"

text \<open>Lines 11 to 15: the import of the kernel is tried and an \<^verbatim>\<open>ImportError\<close> is
  swallowed, which leaves the name unbound. The argument is what the installed packages
  offer.\<close>

definition try_import :: "'a kernel option \<Rightarrow> error + 'a kernel" where
  "try_import installed = (case installed of None \<Rightarrow> Inl ImportError | Some k \<Rightarrow> Inr k)"

definition import_module :: "'a kernel option \<Rightarrow> error + 'a globals" where
  "import_module installed =
     (case try_import installed of
        Inr k \<Rightarrow> Inr \<lparr>RGCNConvAgg = Some k\<rparr>
      | Inl ImportError \<Rightarrow> Inr \<lparr>RGCNConvAgg = None\<rparr>
      | Inl e \<Rightarrow> Inl e)"

subsection \<open>forward\<close>

text \<open>The body of \<^verbatim>\<open>forward\<close> (lines 93 to 107). Reading the unbound global
  \<^verbatim>\<open>RGCNConvAgg\<close> raises \<^verbatim>\<open>NameError\<close>; this happens after the graph handle is
  built, as Python evaluates the callee when it reaches the call.\<close>

definition forward_body ::
  "'a globals \<Rightarrow> ('a::semiring_1) layer \<Rightarrow> 'a tensor option \<Rightarrow> csc \<Rightarrow> int list \<Rightarrow> int option
     \<Rightarrow> error + 'a tensor" where
  "forward_body G self x c edge_type max_num_neighbors =
     bind_res (case x of None \<Rightarrow> torch_eye (in_channels self) | Some t \<Rightarrow> Inr t) (\<lambda>x1.
     bind_res (size0 x1) (\<lambda>n.
       let graph = get_typed_cugraph n c edge_type (num_relations self) max_num_neighbors in
       bind_res (case RGCNConvAgg G of None \<Rightarrow> Inl NameError | Some k \<Rightarrow> Inr k) (\<lambda>agg.
       bind_res (agg x1 (comp self) graph (root_weight self) (aggr self = ''mean'')) (\<lambda>out.
       bind_res (view_rows (weight self) (out_channels self)) (\<lambda>w.
       bind_res (matmul out w) (\<lambda>out1.
         case bias self of None \<Rightarrow> Inr out1 | Some b \<Rightarrow> torch_add out1 b))))))"

text \<open>\<^verbatim>\<open>forward\<close> as a method: it returns its result and the object it was called on.
  No statement of the body assigns to an attribute of \<^verbatim>\<open>self\<close> or updates a parameter
  in place.\<close>

definition forward ::
  "'a globals \<Rightarrow> 'a tensor option \<Rightarrow> csc \<Rightarrow> int list \<Rightarrow> int option \<Rightarrow> ('a::semiring_1) layer
     \<Rightarrow> (error + 'a tensor) \<times> 'a layer" where
  "forward G x c edge_type max_num_neighbors self =
     (forward_body G self x c edge_type max_num_neighbors, self)"

subsection \<open>Construction: side effects, initialisers, reset\_parameters, \_\_init\_\_\<close>

text \<open>What construction does besides computing: it allocates tensors, sets attributes of the
  new object, and draws from the random generator. The first two are recorded in program
  order; the generator state is threaded.\<close>

datatype event = Alloc "nat list" | SetAttr string

record 'g world =
  rng :: 'g
  events :: "event list"

definition bind_st ::
  "('s \<Rightarrow> (error + 'b) \<times> 's) \<Rightarrow> ('b \<Rightarrow> 's \<Rightarrow> (error + 'c) \<times> 's) \<Rightarrow> 's \<Rightarrow> (error + 'c) \<times> 's" where
  "bind_st m f s = (case m s of (Inl e, s1) \<Rightarrow> (Inl e, s1) | (Inr v, s1) \<Rightarrow> f v s1)"

definition return_st :: "'b \<Rightarrow> 's \<Rightarrow> (error + 'b) \<times> 's" where
  "return_st v s = (Inr v, s)"

definition raise_st :: "error \<Rightarrow> 's \<Rightarrow> (error + 'b) \<times> 's" where
  "raise_st e s = (Inl e, s)"

definition new_parameter :: "(nat \<Rightarrow> 'a) \<Rightarrow> int list \<Rightarrow> 'g world \<Rightarrow> (error + 'a tensor) \<times> 'g world" where
  "new_parameter junk dims w =
     (case torch_Tensor junk dims of
        Inl e \<Rightarrow> (Inl e, w)
      | Inr t \<Rightarrow> (Inr t, w\<lparr>events := events w @ [Alloc (shape t)]\<rparr>))"

definition set_attr :: "string \<Rightarrow> 'g world \<Rightarrow> (error + unit) \<times> 'g world" where
  "set_attr name w = (Inr (), w\<lparr>events := events w @ [SetAttr name]\<rparr>)"

definition with_rng :: "('g \<Rightarrow> (error + 'b) \<times> 'g) \<Rightarrow> 'g world \<Rightarrow> (error + 'b) \<times> 'g world" where
  "with_rng m w = (case m (rng w) of (r, g) \<Rightarrow> (r, w\<lparr>rng := g\<rparr>))"

text \<open>Modelled from the spec: the helpers \<^verbatim>\<open>glorot\<close> and \<^verbatim>\<open>zeros\<close> of
  \<^verbatim>\<open>torch_geometric.nn.inits\<close> are not in this file. The spec gives them as
  \<^verbatim>\<open>glorot(tensor)\<close>, an in-place variance-scaled random fill whose scale derives from the
  fan-in and fan-out of the tensor's last two dimensions, and \<^verbatim>\<open>zeros(tensor)\<close>, an
  in-place zero fill; an absent parameter is a no-op on that path. One random value for
  fans \<open>(fi, fo)\<close> is the parameter \<open>draw fi fo\<close>.\<close>

fun fill :: "('g \<Rightarrow> 'a \<times> 'g) \<Rightarrow> nat \<Rightarrow> 'g \<Rightarrow> 'a list \<times> 'g" where
  "fill d 0 g = ([], g)"
| "fill d (Suc n) g =
     (case d g of (v, g1) \<Rightarrow> (case fill d n g1 of (vs, g2) \<Rightarrow> (v # vs, g2)))"

definition glorot ::
  "(nat \<Rightarrow> nat \<Rightarrow> 'g \<Rightarrow> 'a \<times> 'g) \<Rightarrow> 'a tensor option \<Rightarrow> 'g \<Rightarrow> (error + 'a tensor option) \<times> 'g" where
  "glorot draw value g =
     (case value of
        None \<Rightarrow> (Inr None, g)
      | Some t \<Rightarrow>
          (case rev (shape t) of
             fo # fi # _ \<Rightarrow>
               (case fill (draw fi fo) (length (data t)) g of
                  (vs, g1) \<Rightarrow> (Inr (Some (t\<lparr>data := vs\<rparr>)), g1))
           | _ \<Rightarrow> (Inl IndexError, g)))"

definition zeros :: "('a::zero) tensor option \<Rightarrow> 'a tensor option" where
  "zeros value =
     (case value of
        None \<Rightarrow> None
      | Some t \<Rightarrow> Some (t\<lparr>data := replicate (length (data t)) 0\<rparr>))"

text \<open>The two views of the weight that \<^verbatim>\<open>reset_parameters\<close> takes: \<^verbatim>\<open>weight[:end]\<close>
  with \<^verbatim>\<open>end\<close> either -1 or \<^verbatim>\<open>None\<close>, and \<^verbatim>\<open>weight[-1]\<close>. A view shares the
  storage of its base, so filling it in place writes the base: \<open>store_front\<close> and
  \<open>store_last\<close> put the filled data back.\<close>

definition slice_front :: "'a tensor \<Rightarrow> bool \<Rightarrow> error + 'a tensor" where
  "slice_front t drop_last =
     (case shape t of
        [] \<Rightarrow> Inl IndexError
      | b # rest \<Rightarrow>
          (let k = (if drop_last then b - 1 else b)
           in Inr \<lparr>shape = k # rest, data = take (k * prod_list rest) (data t)\<rparr>))"

definition select_last :: "'a tensor \<Rightarrow> error + 'a tensor" where
  "select_last t =
     (case shape t of
        [] \<Rightarrow> Inl IndexError
      | b # rest \<Rightarrow>
          if b = 0 then Inl IndexError
          else Inr \<lparr>shape = rest, data = drop ((b - 1) * prod_list rest) (data t)\<rparr>)"

definition store_front :: "'a tensor \<Rightarrow> 'a tensor \<Rightarrow> 'a tensor" where
  "store_front t v = t\<lparr>data := data v @ drop (length (data v)) (data t)\<rparr>"

definition store_last :: "'a tensor \<Rightarrow> 'a tensor \<Rightarrow> 'a tensor" where
  "store_last t v = t\<lparr>data := take (length (data t) - length (data v)) (data t) @ data v\<rparr>"

definition lift_res :: "error + 'b \<Rightarrow> 's \<Rightarrow> (error + 'b) \<times> 's" where
  "lift_res r s = (r, s)"

definition glorot_view ::
  "(nat \<Rightarrow> nat \<Rightarrow> 'g \<Rightarrow> 'a \<times> 'g) \<Rightarrow> 'a tensor \<Rightarrow> 'g \<Rightarrow> (error + 'a tensor) \<times> 'g" where
  "glorot_view draw v =
     bind_st (glorot draw (Some v)) (\<lambda>r. case r of None \<Rightarrow> return_st v | Some v1 \<Rightarrow> return_st v1)"

text \<open>\<^verbatim>\<open>reset_parameters\<close> (lines 64 to 70), in the order of the source.\<close>

definition reset_parameters ::
  "(nat \<Rightarrow> nat \<Rightarrow> 'g \<Rightarrow> 'a \<times> 'g) \<Rightarrow> ('a::zero) layer \<Rightarrow> 'g \<Rightarrow> (error + 'a layer) \<times> 'g" where
  "reset_parameters draw self =
     bind_st (lift_res (slice_front (weight self) (root_weight self))) (\<lambda>front.
     bind_st (glorot_view draw front) (\<lambda>front1.
     let self1 = self\<lparr>weight := store_front (weight self) front1\<rparr> in
     bind_st (glorot draw (comp self1)) (\<lambda>comp1.
     let self2 = self1\<lparr>comp := comp1\<rparr> in
     bind_st (if root_weight self2
              then bind_st (lift_res (select_last (weight self2))) (\<lambda>last.
                   bind_st (glorot_view draw last) (\<lambda>last1.
                     return_st (self2\<lparr>weight := store_last (weight self2) last1\<rparr>)))
              else return_st self2) (\<lambda>self3.
     return_st (self3\<lparr>bias := zeros (bias self3)\<rparr>)))))"

text \<open>Modelled from the spec: the base class \<^verbatim>\<open>CuGraphModule\<close> is not in this file.
  The spec has it provide parameter registration and generic module behaviour, and has
  construction succeed whether or not the accelerated kernel is installed; its
  \<^verbatim>\<open>__init__\<close> allocates no tensor and sets no attribute of this class.\<close>

definition CuGraphModule_init :: "'g world \<Rightarrow> (error + unit) \<times> 'g world" where
  "CuGraphModule_init = return_st ()"

text \<open>\<^verbatim>\<open>__init__\<close> (lines 28 to 62).\<close>

definition init ::
  "(nat \<Rightarrow> 'a) \<Rightarrow> (nat \<Rightarrow> nat \<Rightarrow> 'g \<Rightarrow> 'a \<times> 'g) \<Rightarrow>
   int \<Rightarrow> int \<Rightarrow> int \<Rightarrow> int option \<Rightarrow> string \<Rightarrow> bool \<Rightarrow> bool \<Rightarrow>
   'g world \<Rightarrow> (error + ('a::zero) layer) \<times> 'g world" where
  "init junk draw in_ch out_ch num_rel num_b ag root_w use_bias =
     bind_st CuGraphModule_init (\<lambda>_.
      if ag \<notin> set [''sum'', ''add'', ''mean''] then raise_st ValueError
      else
        bind_st (set_attr ''in_channels'') (\<lambda>_.
        bind_st (set_attr ''out_channels'') (\<lambda>_.
        bind_st (set_attr ''num_relations'') (\<lambda>_.
        bind_st (set_attr ''num_bases'') (\<lambda>_.
        bind_st (set_attr ''aggr'') (\<lambda>_.
        bind_st (set_attr ''root_weight'') (\<lambda>_.
        let dim_root_weight = (if root_w then 1 else 0) in
        bind_st (case num_b of
                   Some nb \<Rightarrow>
                     bind_st (new_parameter junk [nb + dim_root_weight, in_ch, out_ch]) (\<lambda>wt.
                     bind_st (set_attr ''weight'') (\<lambda>_.
                     bind_st (new_parameter junk [num_rel, nb]) (\<lambda>cp.
                     bind_st (set_attr ''comp'') (\<lambda>_.
                       return_st (wt, Some cp)))))
                 | None \<Rightarrow>
                     bind_st (new_parameter junk [num_rel + dim_root_weight, in_ch, out_ch]) (\<lambda>wt.
                     bind_st (set_attr ''weight'') (\<lambda>_.
                     bind_st (set_attr ''comp'') (\<lambda>_.
                       return_st (wt, None))))) (\<lambda>(wt, cp).
        bind_st (if use_bias
                 then bind_st (new_parameter junk [out_ch]) (\<lambda>b.
                      bind_st (set_attr ''bias'') (\<lambda>_. return_st (Some b)))
                 else bind_st (set_attr ''bias'') (\<lambda>_. return_st None)) (\<lambda>bs.
        with_rng (reset_parameters draw
          \<lparr>in_channels = in_ch, out_channels = out_ch, num_relations = num_rel,
           num_bases = num_b, aggr = ag, root_weight = root_w,
           weight = wt, comp = cp, bias = bs\<rparr>))))))))))"

subsection \<open>A concrete layer, kernel and graph\<close>

text \<open>A layer with two input channels, one output channel and one relation, without root
  weight and bias; a graph on three nodes in which node j has the single in-edge from node
  j, so that aggregating over the neighbours returns the features themselves, which is
  what the example kernel does.\<close>

definition example_kernel :: "int kernel" where
  "example_kernel x cp g concat_own norm = Inr x"

definition example_layer :: "int layer" where
  "example_layer =
     \<lparr>in_channels = 2, out_channels = 1, num_relations = 1, num_bases = None,
      aggr = ''mean'', root_weight = False,
      weight = \<lparr>shape = [1, 2, 1], data = [1, 1]\<rparr>, comp = None, bias = None\<rparr>"

definition example_csc :: csc where
  "example_csc = ([0, 1, 2], [0, 1, 2, 3])"

definition example_globals :: "int globals" where
  "example_globals = \<lparr>RGCNConvAgg = Some example_kernel\<rparr>"

text \<open>A second kernel and layer, for which the matrix product is not the identity: the
  kernel returns the fixed matrix with rows (1, 2) and (3, 4), the weight holds 10 and
  100.\<close>

definition example_kernel2 :: "int kernel" where
  "example_kernel2 x cp g concat_own norm = Inr \<lparr>shape = [2, 2], data = [1, 2, 3, 4]\<rparr>"

definition example_layer2 :: "int layer" where
  "example_layer2 =
     \<lparr>in_channels = 2, out_channels = 1, num_relations = 1, num_bases = None,
      aggr = ''sum'', root_weight = False,
      weight = \<lparr>shape = [1, 2, 1], data = [10, 100]\<rparr>, comp = None, bias = None\<rparr>"

text \<open>Follows the spec's words, not the source: the number of source nodes that the edge
  structure determines, the least N with N columns at least and every row index below
  N.\<close>

definition inferred_num_src_nodes :: "csc \<Rightarrow> nat" where
  "inferred_num_src_nodes c = max (length (snd c) - 1) (nat (fold max (fst c) (- 1) + 1))"

subsection \<open>The state in which reset\_parameters is called\<close>

text \<open>The object as lines 37 to 60 leave it, when line 62 calls \<^verbatim>\<open>reset_parameters\<close>:
  the configuration fields and the freshly allocated parameters; and the side effects of
  those lines in program order.\<close>

definition allocated_layer ::
  "(nat \<Rightarrow> 'a) \<Rightarrow> int \<Rightarrow> int \<Rightarrow> int \<Rightarrow> int option \<Rightarrow> string \<Rightarrow> bool \<Rightarrow> bool \<Rightarrow> 'a layer" where
  "allocated_layer junk in_ch out_ch num_rel num_b ag root_w use_bias =
     \<lparr>in_channels = in_ch, out_channels = out_ch, num_relations = num_rel,
      num_bases = num_b, aggr = ag, root_weight = root_w,
      weight =
        (let b = nat ((case num_b of Some nb \<Rightarrow> nb | None \<Rightarrow> num_rel) + (if root_w then 1 else 0))
         in \<lparr>shape = [b, nat in_ch, nat out_ch],
              data = map junk [0 ..< b * (nat in_ch * nat out_ch)]\<rparr>),
      comp =
        (case num_b of
           None \<Rightarrow> None
         | Some nb \<Rightarrow> Some \<lparr>shape = [nat num_rel, nat nb],
                            data = map junk [0 ..< nat num_rel * nat nb]\<rparr>),
      bias =
        (if use_bias then Some \<lparr>shape = [nat out_ch], data = map junk [0 ..< nat out_ch]\<rparr>
         else None)\<rparr>"

definition construction_events :: "int \<Rightarrow> int \<Rightarrow> int \<Rightarrow> int option \<Rightarrow> bool \<Rightarrow> bool \<Rightarrow> event list" where
  "construction_events in_ch out_ch num_rel num_b root_w use_bias =
     [SetAttr ''in_channels'', SetAttr ''out_channels'', SetAttr ''num_relations'',
      SetAttr ''num_bases'', SetAttr ''aggr'', SetAttr ''root_weight'',
      Alloc [nat ((case num_b of Some nb \<Rightarrow> nb | None \<Rightarrow> num_rel) + (if root_w then 1 else 0)),
             nat in_ch, nat out_ch],
      SetAttr ''weight'']
     @ (case num_b of None \<Rightarrow> [] | Some nb \<Rightarrow> [Alloc [nat num_rel, nat nb]])
     @ [SetAttr ''comp'']
     @ (if use_bias then [Alloc [nat out_ch]] else [])
     @ [SetAttr ''bias'']"

text \<open>The constructor contract of the spec: positive channel and relation counts, a positive
  number of bases when one is given, and one of the three accepted aggregations.\<close>

definition valid_args :: "int \<Rightarrow> int \<Rightarrow> int \<Rightarrow> int option \<Rightarrow> string \<Rightarrow> bool" where
  "valid_args in_ch out_ch num_rel num_b ag =
     (0 < in_ch \<and> 0 < out_ch \<and> 0 < num_rel
      \<and> (case num_b of None \<Rightarrow> True | Some nb \<Rightarrow> 0 < nb)
      \<and> ag \<in> set [''sum'', ''add'', ''mean''])"

text \<open>The shape invariant that \<^verbatim>\<open>__init__\<close> establishes before the reset: a weight of
  three dimensions whose data fill it, with at least one slice when there is a root
  weight, and a comp that is absent or has two dimensions at least.\<close>

definition well_shaped :: "'a layer \<Rightarrow> bool" where
  "well_shaped self =
     ((case shape (weight self) of
         [b, i, oc] \<Rightarrow> length (data (weight self)) = b * (i * oc) \<and> (root_weight self \<longrightarrow> 0 < b)
       | _ \<Rightarrow> False)
      \<and> (case comp self of None \<Rightarrow> True | Some c \<Rightarrow> 2 \<le> length (shape c)))"

text \<open>A source of stale memory, a generator and a starting world for concrete runs.\<close>

definition example_junk :: "nat \<Rightarrow> int" where
  "example_junk i = - 7"

definition example_draw :: "nat \<Rightarrow> nat \<Rightarrow> nat \<Rightarrow> int \<times> nat" where
  "example_draw fi fo g = (int (Suc g), Suc g)"

definition example_world :: "nat world" where
  "example_world = \<lparr>rng = 0, events = []\<rparr>"

subsection \<open>forward over an explicit store\<close>

text \<open>Tensors of the program are objects that refer to storage, and a view shares the
  storage of its base. To state what a call may change, \<^verbatim>\<open>forward\<close> is given a second
  time over an explicit store: a tensor is a reference (the address of its storage, and
  its shape), the store maps addresses to data, the module is an object whose parameters
  are references. Each statement of lines 93 to 107 runs on the pair of the object and
  the store. An operation that returns a new tensor (\<^verbatim>\<open>torch.eye\<close>, the kernel,
  \<^verbatim>\<open>@\<close>, \<^verbatim>\<open>+\<close>) allocates fresh storage; \<^verbatim>\<open>view\<close> allocates nothing and aliases
  its argument. The kernel is a function of the values of its arguments.\<close>

record tref =
  t_addr :: nat
  t_shape :: "nat list"

type_synonym 'a store = "'a list list"

definition load :: "'a store \<Rightarrow> tref \<Rightarrow> 'a tensor" where
  "load s r = \<lparr>shape = t_shape r, data = s ! t_addr r\<rparr>"

definition new_tensor :: "error + 'a tensor \<Rightarrow> 'a store \<Rightarrow> (error + tref) \<times> 'a store" where
  "new_tensor res s =
     (case res of
        Inl e \<Rightarrow> (Inl e, s)
      | Inr t \<Rightarrow> (Inr \<lparr>t_addr = length s, t_shape = shape t\<rparr>, s @ [data t]))"

definition view_st :: "tref \<Rightarrow> int \<Rightarrow> 'a store \<Rightarrow> (error + tref) \<times> 'a store" where
  "view_st r c s =
     (case view_rows (load s r) c of
        Inl e \<Rightarrow> (Inl e, s)
      | Inr t \<Rightarrow> (Inr \<lparr>t_addr = t_addr r, t_shape = shape t\<rparr>, s))"

record module_obj =
  m_in_channels :: int
  m_out_channels :: int
  m_num_relations :: int
  m_num_bases :: "int option"
  m_aggr :: string
  m_root_weight :: bool
  m_weight :: tref
  m_comp :: "tref option"
  m_bias :: "tref option"

definition attr :: "(module_obj \<Rightarrow> 'b) \<Rightarrow> module_obj \<times> 's \<Rightarrow> (error + 'b) \<times> (module_obj \<times> 's)" where
  "attr f st = (Inr (f (fst st)), st)"

definition on_store ::
  "('s \<Rightarrow> (error + 'b) \<times> 's) \<Rightarrow> module_obj \<times> 's \<Rightarrow> (error + 'b) \<times> (module_obj \<times> 's)" where
  "on_store m st = (case m (snd st) of (r, s1) \<Rightarrow> (r, (fst st, s1)))"

text \<open>Lines 93 to 107, statement by statement; attributes of \<^verbatim>\<open>self\<close> are read where
  the source reads them.\<close>

definition forward_st ::
  "'a globals \<Rightarrow> tref option \<Rightarrow> csc \<Rightarrow> int list \<Rightarrow> int option
     \<Rightarrow> module_obj \<times> ('a::semiring_1) store \<Rightarrow> (error + tref) \<times> (module_obj \<times> 'a store)" where
  "forward_st G x c edge_type max_num_neighbors =
     bind_st (case x of
                None \<Rightarrow> bind_st (attr m_in_channels) (\<lambda>n. on_store (new_tensor (torch_eye n)))
              | Some r \<Rightarrow> return_st r) (\<lambda>x1.
     bind_st (lift_res (case t_shape x1 of [] \<Rightarrow> Inl IndexError | n # _ \<Rightarrow> Inr n)) (\<lambda>n.
     bind_st (attr m_num_relations) (\<lambda>nr.
     let graph = get_typed_cugraph n c edge_type nr max_num_neighbors in
     bind_st (lift_res (case RGCNConvAgg G of None \<Rightarrow> Inl NameError | Some k \<Rightarrow> Inr k)) (\<lambda>agg.
     bind_st (attr m_comp) (\<lambda>cp.
     bind_st (attr m_root_weight) (\<lambda>rw.
     bind_st (attr m_aggr) (\<lambda>ag.
     bind_st (on_store (\<lambda>s. new_tensor
                (agg (load s x1) (map_option (load s) cp) graph rw (ag = ''mean'')) s)) (\<lambda>out.
     bind_st (attr m_weight) (\<lambda>wr.
     bind_st (attr m_out_channels) (\<lambda>oc.
     bind_st (on_store (view_st wr oc)) (\<lambda>w.
     bind_st (on_store (\<lambda>s. new_tensor (matmul (load s out) (load s w)) s)) (\<lambda>out1.
     bind_st (attr m_bias) (\<lambda>b.
       case b of
         None \<Rightarrow> return_st out1
       | Some br \<Rightarrow> on_store (\<lambda>s. new_tensor (torch_add (load s out1) (load s br)) s))))))))))))))"

text \<open>The layer of values that an object and a store stand for, and the condition that the
  references of a call point into the store.\<close>

definition layer_of :: "module_obj \<Rightarrow> 'a store \<Rightarrow> 'a layer" where
  "layer_of self s =
     \<lparr>in_channels = m_in_channels self, out_channels = m_out_channels self,
      num_relations = m_num_relations self, num_bases = m_num_bases self,
      aggr = m_aggr self, root_weight = m_root_weight self,
      weight = load s (m_weight self), comp = map_option (load s) (m_comp self),
      bias = map_option (load s) (m_bias self)\<rparr>"

definition allocated :: "'a store \<Rightarrow> tref option \<Rightarrow> bool" where
  "allocated s r = (case r of None \<Rightarrow> True | Some t \<Rightarrow> t_addr t < length s)"

definition refs_allocated :: "module_obj \<Rightarrow> tref option \<Rightarrow> 'a store \<Rightarrow> bool" where
  "refs_allocated self x s =
     (allocated s (Some (m_weight self)) \<and> allocated s (m_comp self)
      \<and> allocated s (m_bias self) \<and> allocated s x)"

definition example_obj :: module_obj where
  "example_obj =
     \<lparr>m_in_channels = 2, m_out_channels = 1, m_num_relations = 1, m_num_bases = None,
      m_aggr = ''mean'', m_root_weight = False,
      m_weight = \<lparr>t_addr = 0, t_shape = [1, 2, 1]\<rparr>, m_comp = None, m_bias = None\<rparr>"

definition example_store :: "int store" where
  "example_store = [[1, 1]]"

section \<open>Properties\<close>

subsection \<open>Auxiliary facts\<close>

lemma bind_res_simps [simp]:
  "bind_res (Inl e) f = Inl e" "bind_res (Inr v) f = f v"
  by (simp_all add: bind_res_def)

lemma upt_Suc_front: "[0 ..< Suc a] = 0 # map Suc [0 ..< a]"
  by (simp only: map_Suc_upt upt_conv_Cons [OF zero_less_Suc])

lemma blocks_Suc:
  "map (\<lambda>i. take p (drop (i * p) d)) [0 ..< Suc a] =
   take p d # map (\<lambda>i. take p (drop (i * p) (drop p d))) [0 ..< a]"
  by (simp only: upt_Suc_front) (simp add: o_def add.commute)

lemma concat_rows:
  "length d = a * p \<Longrightarrow> concat (map (\<lambda>i. take p (drop (i * p) d)) [0 ..< a]) = d"
proof (induction a arbitrary: d)
  case 0 then show ?case by simp
next
  case (Suc a)
  have "length (drop p d) = a * p" using Suc.prems by simp
  then have "concat (map (\<lambda>i. take p (drop (i * p) (drop p d))) [0 ..< a]) = drop p d"
    by (rule Suc.IH)
  then show ?case by (simp only: blocks_Suc concat.simps append_take_drop_id)
qed

lemma block_length:
  assumes "length d = a * p" "i < a"
  shows "length (take p (drop (i * p) d)) = p"
proof -
  have "Suc i * p \<le> a * p" using assms(2) by (intro mult_le_mono1) simp
  then show ?thesis using assms(1) by simp
qed

lemma expand_same: "length d = prod_list s \<Longrightarrow> expand s s d = d"
proof (induction s arbitrary: d)
  case Nil then show ?case by simp
next
  case (Cons a s)
  have len: "length d = a * prod_list s" using Cons.prems by simp
  have "map (\<lambda>i. expand s s (take (prod_list s) (drop (i * prod_list s) d))) [0 ..< a]
      = map (\<lambda>i. take (prod_list s) (drop (i * prod_list s) d)) [0 ..< a]"
  proof (rule map_cong [OF refl])
    fix i assume "i \<in> set [0 ..< a]"
    then have "i < a" by simp
    show "expand s s (take (prod_list s) (drop (i * prod_list s) d))
        = take (prod_list s) (drop (i * prod_list s) d)"
      by (rule Cons.IH) (rule block_length [OF len \<open>i < a\<close>])
  qed
  then have "expand (a # s) (a # s) d
      = concat (map (\<lambda>i. take (prod_list s) (drop (i * prod_list s) d)) [0 ..< a])"
    by (simp only: expand.simps Let_def refl if_True)
  then show ?case by (simp only: concat_rows [OF len])
qed

lemma rows_of_Suc: "rows_of (Suc n) m d = take m d # rows_of n m (drop m d)"
  by (simp only: rows_of_def blocks_Suc)

lemma map2_concat_replicate:
  "length d = n * length b \<Longrightarrow>
   map2 (+) d (concat (replicate n b)) = concat (map (\<lambda>r. map2 (+) r b) (rows_of n (length b) d))"
proof (induction n arbitrary: d)
  case 0 then show ?case by (simp add: rows_of_def)
next
  case (Suc n)
  have d: "d = take (length b) d @ drop (length b) d" by simp
  have l1: "length (take (length b) d) = length b" using Suc.prems by simp
  have l2: "length (drop (length b) d) = n * length b" using Suc.prems by simp
  have "map2 (+) d (concat (replicate (Suc n) b))
      = map2 (+) (take (length b) d @ drop (length b) d) (b @ concat (replicate n b))"
    by simp
  also have "\<dots> = map2 (+) (take (length b) d) b @ map2 (+) (drop (length b) d) (concat (replicate n b))"
    using l1 by (simp only: zip_append map_append)
  also have "\<dots> = concat (map (\<lambda>r. map2 (+) r b) (rows_of (Suc n) (length b) d))"
    by (simp only: rows_of_Suc Suc.IH [OF l2] list.map concat.simps)
  finally show ?case .
qed

lemma torch_add_rows:
  assumes "shape out = [n, m]" "shape b = [m]" "length (data out) = n * m" "length (data b) = m"
  shows "torch_add out b =
         Inr \<lparr>shape = [n, m],
              data = concat (map (\<lambda>r. map2 (+) r (data b)) (rows_of n m (data out)))\<rparr>"
proof -
  have bs: "broadcast_shapes [n, m] [m] = Some [n, m]"
    by (simp add: broadcast_shapes_def)
  have e1: "expand [n, m] [n, m] (data out) = data out"
    by (rule expand_same) (simp add: assms)
  have e2: "expand [m] [m] (take m (data b)) = data b"
    using expand_same [of "data b" "[m]"] assms(4) by simp
  have e3: "expand [Suc 0, m] [n, m] (data b) = concat (replicate n (data b))"
    using e2 assms(4) by (cases "n = Suc 0") (simp_all add: Let_def)
  show ?thesis
    using map2_concat_replicate [of "data out" n "data b"] assms
    by (simp add: torch_add_def bs pad_shape_def e1 e3 del: expand.simps)
qed

lemma example_forward_default:
  "fst (forward example_globals None example_csc [0, 0, 0] None example_layer)
     = Inr \<lparr>shape = [2, 1], data = [1, 1]\<rparr>"
  by (simp add: forward_def forward_body_def torch_eye_def example_globals_def example_layer_def
        example_kernel_def size0_def eye_data_def view_rows_def numel_def matmul_def rows_of_def
        row_times_def get_typed_cugraph_def upt_rec)

lemma example_forward_eye3:
  "fst (forward example_globals (Some \<lparr>shape = [3, 3], data = eye_data 3\<rparr>)
          example_csc [0, 0, 0] None example_layer) = Inl RuntimeError"
  by (simp add: forward_def forward_body_def example_globals_def example_layer_def
        example_kernel_def size0_def view_rows_def numel_def matmul_def)

lemma example_inferred: "inferred_num_src_nodes example_csc = 3"
  by (simp add: inferred_num_src_nodes_def example_csc_def)

lemma bind_st_simps [simp]:
  "bind_st (return_st v) f s = f v s"
  "bind_st (raise_st e) f s = (Inl e, s)"
  "bind_st (lift_res (Inr v)) f s = f v s"
  "bind_st (lift_res (Inl e)) f s = (Inl e, s)"
  by (simp_all add: bind_st_def return_st_def raise_st_def lift_res_def)

lemma bind_st_assoc [simp]:
  "bind_st (bind_st m f) h = bind_st m (\<lambda>v. bind_st (f v) h)"
  by (rule ext) (simp add: bind_st_def split: prod.splits sum.splits)

lemma bind_st_Inr: "m s = (Inr v, s1) \<Longrightarrow> bind_st m f s = f v s1"
  by (simp add: bind_st_def)

lemma bind_st_Inl: "m s = (Inl e, s1) \<Longrightarrow> bind_st m f s = (Inl e, s1)"
  by (simp add: bind_st_def)

lemma glorot_None [simp]: "glorot draw None g = (Inr None, g)"
  by (simp add: glorot_def)

lemma glorot_Some:
  "shape t = s @ [fi, fo] \<Longrightarrow>
   glorot draw (Some t) g =
     (Inr (Some (t\<lparr>data := fst (fill (draw fi fo) (length (data t)) g)\<rparr>)),
      snd (fill (draw fi fo) (length (data t)) g))"
  by (simp add: glorot_def split: prod.splits)

lemma glorot_view_result:
  "shape t = s @ [fi, fo] \<Longrightarrow>
   glorot_view draw t g =
     (Inr (t\<lparr>data := fst (fill (draw fi fo) (length (data t)) g)\<rparr>),
      snd (fill (draw fi fo) (length (data t)) g))"
  by (simp add: glorot_view_def bind_st_def glorot_Some return_st_def)

lemma length_fill [simp]: "length (fst (fill d n g)) = n"
proof (induction n arbitrary: g)
  case 0 then show ?case by simp
next
  case (Suc n)
  obtain v g1 where d: "d g = (v, g1)" by (cases "d g")
  obtain vs g2 where f: "fill d n g1 = (vs, g2)" by (cases "fill d n g1")
  have "length vs = n" using Suc.IH [of g1] f by simp
  then show ?case by (simp add: d f)
qed

lemma weight_views:
  assumes w: "shape t = [b, i, oc]" and len: "length (data t) = b * (i * oc)"
  shows "slice_front t False = Inr \<lparr>shape = [b, i, oc], data = data t\<rparr>"
    and "slice_front t True = Inr \<lparr>shape = [b - 1, i, oc], data = take ((b - 1) * (i * oc)) (data t)\<rparr>"
    and "0 < b \<Longrightarrow> select_last t = Inr \<lparr>shape = [i, oc], data = drop ((b - 1) * (i * oc)) (data t)\<rparr>"
  using w len by (simp_all add: slice_front_def select_last_def Let_def)

lemma reset_parameters_steps:
  fixes self :: "('a::zero) layer"
  assumes w: "shape (weight self) = [b, i, oc]"
    and len: "length (data (weight self)) = b * (i * oc)"
    and rw: "root_weight self \<Longrightarrow> 0 < b"
    and cp: "case comp self of None \<Rightarrow> True | Some c \<Rightarrow> 2 \<le> length (shape c)"
  shows "\<exists>f f1 g1 c1 g2 self' g'.
      slice_front (weight self) (root_weight self) = Inr f
    \<and> glorot draw (Some f) g = (Inr (Some f1), g1)
    \<and> glorot draw (comp self) g1 = (Inr c1, g2)
    \<and> reset_parameters draw self g = (Inr self', g')
    \<and> slice_front (weight self') (root_weight self) = Inr f1
    \<and> self' = self\<lparr>weight := weight self', comp := c1, bias := zeros (bias self)\<rparr>
    \<and> shape (weight self') = [b, i, oc]
    \<and> length (data (weight self')) = b * (i * oc)
    \<and> (if root_weight self
        then \<exists>l l1. select_last (weight self) = Inr l
                  \<and> glorot draw (Some l) g2 = (Inr (Some l1), g')
                  \<and> select_last (weight self') = Inr l1
        else g' = g2 \<and> weight self' = f1)"
proof -
  define p where "p = i * oc"
  define k where "k = (if root_weight self then b - 1 else b)"
  define front where "front = \<lparr>shape = [k, i, oc], data = take (k * p) (data (weight self))\<rparr>"
  define F where "F = fill (draw i oc) (k * p) g"
  define f1 where "f1 = front\<lparr>data := fst F\<rparr>"
  have kb: "k * p \<le> b * p" by (simp add: k_def)
  have sf: "slice_front (weight self) (root_weight self) = Inr front"
    using weight_views(1,2) [OF w len] len by (simp add: front_def k_def p_def)
  have lfront: "length (data front) = k * p"
    using kb len by (simp add: front_def p_def)
  have gf: "glorot draw (Some front) g = (Inr (Some f1), snd F)"
    using glorot_Some [of front "[k]" i oc draw g] lfront by (simp add: front_def f1_def F_def)
  have gv: "glorot_view draw front g = (Inr f1, snd F)"
    using glorot_view_result [of front "[k]" i oc draw g] lfront by (simp add: front_def f1_def F_def)
  obtain c1 g2 where gc: "glorot draw (comp self) (snd F) = (Inr c1, g2)"
  proof (cases "comp self")
    case None then show ?thesis using that by simp
  next
    case (Some c)
    define rs where "rs = rev (shape c)"
    from Some cp have "2 \<le> length rs" by (simp add: rs_def)
    then obtain fo fi r where "rs = fo # fi # r"
      by (auto simp: Suc_le_length_iff numeral_2_eq_2)
    then have "rev (shape c) = fo # fi # r" by (simp add: rs_def)
    then have "shape c = rev r @ [fi, fo]"
      by (simp add: rev_swap [symmetric])
    then show ?thesis
      using that Some glorot_Some [of c "rev r" fi fo draw "snd F"] by simp
  qed
  define w1 where "w1 = store_front (weight self) f1"
  have w1: "w1 = (weight self)\<lparr>data := fst F @ drop (k * p) (data (weight self))\<rparr>"
    by (simp add: w1_def store_front_def f1_def F_def)
  have lF: "length (fst F) = k * p" by (simp add: F_def)
  have "length (data w1) = k * p + (b * p - k * p)"
    using len by (simp add: w1 lF p_def)
  with kb have lw1: "length (data w1) = b * p" by simp
  have sw1: "shape w1 = [b, i, oc]" by (simp add: w1 w)
  define self2 where "self2 = self\<lparr>weight := w1, comp := c1\<rparr>"
  show ?thesis
  proof (cases "root_weight self")
    case False
    then have kb': "k = b" by (simp add: k_def)
    have w1f: "w1 = f1"
      using len w by (simp add: w1 f1_def front_def kb' p_def F_def)
    have sfF: "slice_front (weight self) False = Inr front" using sf False by simp
    have res: "reset_parameters draw self g = (Inr (self2\<lparr>bias := zeros (bias self)\<rparr>), g2)"
      using False
      by (simp add: reset_parameters_def sfF bind_st_Inr [where m = "glorot_view draw front" and s = g, OF gv] Let_def
            bind_st_Inr [where m = "glorot draw (comp self)" and s = "snd F", OF gc] self2_def w1_def [symmetric] return_st_def)
    have sf': "slice_front f1 False = Inr f1"
      using weight_views(1) [of f1 b i oc] sw1 lw1 by (simp add: w1f [symmetric] p_def)
    show ?thesis
      apply (rule exI [of _ front], rule exI [of _ f1], rule exI [of _ "snd F"])
      apply (rule exI [of _ c1], rule exI [of _ g2])
      apply (rule exI [of _ "self2\<lparr>bias := zeros (bias self)\<rparr>"], rule exI [of _ g2])
      using False sf gf gc res sf' sw1 lw1
      by (simp add: self2_def w1f p_def)
  next
    case True
    then have b0: "0 < b" by (rule rw)
    have kb': "k = b - 1" using True by (simp add: k_def)
    have bp: "b * p = k * p + p" using b0 by (simp add: kb' algebra_simps mult_eq_if)
    define lst where "lst = \<lparr>shape = [i, oc], data = drop (k * p) (data (weight self))\<rparr>"
    define L where "L = fill (draw i oc) p g2"
    define l1 where "l1 = lst\<lparr>data := fst L\<rparr>"
    have llst: "length (data lst) = p" using len bp by (simp add: lst_def p_def)
    have sl0: "select_last (weight self) = Inr lst"
      using weight_views(3) [OF w len b0] by (simp add: lst_def kb' p_def)
    have sl1: "select_last w1 = Inr lst"
      using weight_views(3) [of w1 b i oc] sw1 lw1 b0
      by (simp add: lst_def kb' p_def w1 F_def)
    have gl: "glorot draw (Some lst) g2 = (Inr (Some l1), snd L)"
      using glorot_Some [of lst "[]" i oc draw g2] llst by (simp add: lst_def l1_def L_def)
    have glv: "glorot_view draw lst g2 = (Inr l1, snd L)"
      using glorot_view_result [of lst "[]" i oc draw g2] llst by (simp add: lst_def l1_def L_def)
    define w2 where "w2 = store_last w1 l1"
    have w2: "w2 = (weight self)\<lparr>data := fst F @ fst L\<rparr>"
      using bp len by (simp add: w2_def store_last_def w1 l1_def F_def L_def lst_def p_def)
    have sfT: "slice_front (weight self) True = Inr front" using sf True by simp
    have res: "reset_parameters draw self g =
                 (Inr (self2\<lparr>weight := w2, bias := zeros (bias self)\<rparr>), snd L)"
      using True
      by (simp add: reset_parameters_def sfT bind_st_Inr [where m = "glorot_view draw front" and s = g, OF gv] Let_def
            bind_st_Inr [where m = "glorot draw (comp self)" and s = "snd F", OF gc] self2_def w1_def [symmetric] sl1 bind_st_Inr [where m = "glorot_view draw lst" and s = g2, OF glv]
            w2_def [symmetric] return_st_def)
    have sw2: "shape w2 = [b, i, oc]" by (simp add: w2 w)
    have lw2: "length (data w2) = b * (i * oc)"
      using bp by (simp add: w2 F_def L_def p_def)
    have sf': "slice_front w2 True = Inr f1"
      using weight_views(2) [OF sw2 lw2]
      by (simp add: w2 f1_def front_def kb' p_def F_def)
    have sl': "select_last w2 = Inr l1"
      using weight_views(3) [OF sw2 lw2 b0]
      by (simp add: w2 l1_def lst_def kb' p_def F_def)
    show ?thesis
      apply (rule exI [of _ front], rule exI [of _ f1], rule exI [of _ "snd F"])
      apply (rule exI [of _ c1], rule exI [of _ g2])
      apply (rule exI [of _ "self2\<lparr>weight := w2, bias := zeros (bias self)\<rparr>"])
      apply (rule exI [of _ "snd L"])
      using True sf gf gc res sf' sw2 lw2 sl0 gl sl'
      by (simp add: self2_def)
  qed
qed

lemma new_parameter_ok:
  "list_all (\<lambda>d. 0 \<le> d) dims \<Longrightarrow>
   new_parameter junk dims w =
     (Inr \<lparr>shape = map nat dims, data = map junk [0 ..< prod_list (map nat dims)]\<rparr>,
      w\<lparr>events := events w @ [Alloc (map nat dims)]\<rparr>)"
  by (simp add: new_parameter_def torch_Tensor_def numel_def list_ex_iff list_all_iff not_less)

lemma init_unfold:
  assumes "valid_args in_ch out_ch num_rel num_b ag"
  shows "init junk draw in_ch out_ch num_rel num_b ag root_w use_bias w =
         with_rng (reset_parameters draw
                     (allocated_layer junk in_ch out_ch num_rel num_b ag root_w use_bias))
           (w\<lparr>events := events w @ construction_events in_ch out_ch num_rel num_b root_w use_bias\<rparr>)"
proof -
  have ag: "ag = ''sum'' \<or> ag = ''add'' \<or> ag = ''mean''"
    using assms by (auto simp: valid_args_def)
  have pos: "0 < in_ch" "0 < out_ch" "0 < num_rel"
    using assms by (simp_all add: valid_args_def)
  show ?thesis
  proof (cases num_b)
    case None
    show ?thesis
      using ag pos None
      by (cases root_w; cases use_bias)
         (auto simp add: init_def CuGraphModule_init_def set_attr_def bind_st_def return_st_def
            raise_st_def new_parameter_ok allocated_layer_def construction_events_def Let_def)
  next
    case (Some nb)
    then have "0 < nb" using assms by (simp add: valid_args_def)
    then show ?thesis
      using ag pos Some
      by (cases root_w; cases use_bias)
         (auto simp add: init_def CuGraphModule_init_def set_attr_def bind_st_def return_st_def
            raise_st_def new_parameter_ok allocated_layer_def construction_events_def Let_def)
  qed
qed

lemma well_shapedD:
  assumes "well_shaped self"
  obtains b i oc where "shape (weight self) = [b, i, oc]"
    "length (data (weight self)) = b * (i * oc)" "root_weight self \<longrightarrow> 0 < b"
    "case comp self of None \<Rightarrow> True | Some c \<Rightarrow> 2 \<le> length (shape c)"
  using assms by (auto simp: well_shaped_def split: list.splits)

lemma fill_length: "fill d n g = (vs, g1) \<Longrightarrow> length vs = n"
  using length_fill [of d n g] by simp

lemma glorot_keeps:
  "glorot draw v g = (Inr v1, g1) \<Longrightarrow>
   (v = None \<longleftrightarrow> v1 = None) \<and> map_option shape v1 = map_option shape v
   \<and> map_option (\<lambda>t. length (data t)) v1 = map_option (\<lambda>t. length (data t)) v"
  by (cases v) (auto simp: glorot_def split: list.splits prod.splits dest: fill_length)

lemma allocated_well_shaped:
  "valid_args in_ch out_ch num_rel num_b ag \<Longrightarrow>
   well_shaped (allocated_layer junk in_ch out_ch num_rel num_b ag root_w use_bias)"
  by (auto simp: valid_args_def well_shaped_def allocated_layer_def Let_def split: option.splits)

lemma zeros_simps [simp]:
  "zeros None = None"
  "zeros (Some t) = Some (t\<lparr>data := replicate (length (data t)) 0\<rparr>)"
  by (simp_all add: zeros_def)

lemma reset_parameters_well_shaped:
  fixes self :: "('a::zero) layer"
  assumes "well_shaped self"
  shows "\<exists>self' g'. reset_parameters draw self g = (Inr self', g')
           \<and> shape (weight self') = shape (weight self)
           \<and> length (data (weight self')) = length (data (weight self))
           \<and> (comp self = None \<longleftrightarrow> comp self' = None)
           \<and> map_option shape (comp self') = map_option shape (comp self)
           \<and> bias self' = zeros (bias self)
           \<and> in_channels self' = in_channels self \<and> out_channels self' = out_channels self
           \<and> num_relations self' = num_relations self \<and> num_bases self' = num_bases self
           \<and> aggr self' = aggr self \<and> root_weight self' = root_weight self"
proof -
  from assms obtain b i oc where w: "shape (weight self) = [b, i, oc]"
    and len: "length (data (weight self)) = b * (i * oc)"
    and rw': "root_weight self \<longrightarrow> 0 < b"
    and cp: "case comp self of None \<Rightarrow> True | Some c \<Rightarrow> 2 \<le> length (shape c)"
    by (rule well_shapedD)
  from rw' have rw: "root_weight self \<Longrightarrow> 0 < b" by simp
  from reset_parameters_steps [OF w len rw cp, of draw g]
  obtain f f1 g1 c1 g2 self' g' where
    gc: "glorot draw (comp self) g1 = (Inr c1, g2)"
    and res: "reset_parameters draw self g = (Inr self', g')"
    and eq: "self' = self\<lparr>weight := weight self', comp := c1, bias := zeros (bias self)\<rparr>"
    and sh: "shape (weight self') = [b, i, oc]"
    and ln: "length (data (weight self')) = b * (i * oc)"
    by blast
  have c: "comp self' = c1" "bias self' = zeros (bias self)"
    "in_channels self' = in_channels self" "out_channels self' = out_channels self"
    "num_relations self' = num_relations self" "num_bases self' = num_bases self"
    "aggr self' = aggr self" "root_weight self' = root_weight self"
    by (subst eq, simp)+
  show ?thesis
    using res sh ln w len c glorot_keeps [OF gc] by auto
qed

lemma init_result:
  fixes junk :: "nat \<Rightarrow> ('a::zero)"
  assumes v: "valid_args in_ch out_ch num_rel num_b ag"
  shows "\<exists>self g'.
      init junk draw in_ch out_ch num_rel num_b ag root_w use_bias w =
        (Inr self, w\<lparr>events := events w @ construction_events in_ch out_ch num_rel num_b root_w use_bias,
                    rng := g'\<rparr>)
    \<and> in_channels self = in_ch \<and> out_channels self = out_ch \<and> num_relations self = num_rel
    \<and> num_bases self = num_b \<and> aggr self = ag \<and> root_weight self = root_w
    \<and> shape (weight self) =
        [nat ((case num_b of Some nb \<Rightarrow> nb | None \<Rightarrow> num_rel) + (if root_w then 1 else 0)),
         nat in_ch, nat out_ch]
    \<and> map_option shape (comp self) =
        (case num_b of None \<Rightarrow> None | Some nb \<Rightarrow> Some [nat num_rel, nat nb])
    \<and> bias self =
        (if use_bias then Some \<lparr>shape = [nat out_ch], data = replicate (nat out_ch) 0\<rparr> else None)"
proof -
  let ?a = "allocated_layer junk in_ch out_ch num_rel num_b ag root_w use_bias"
  from reset_parameters_well_shaped [OF allocated_well_shaped [OF v, of junk root_w use_bias], of draw "rng w"]
  obtain self g' where res: "reset_parameters draw ?a (rng w) = (Inr self, g')"
    and p: "shape (weight self) = shape (weight ?a)"
      "map_option shape (comp self) = map_option shape (comp ?a)"
      "bias self = zeros (bias ?a)"
      "in_channels self = in_channels ?a" "out_channels self = out_channels ?a"
      "num_relations self = num_relations ?a" "num_bases self = num_bases ?a"
      "aggr self = aggr ?a" "root_weight self = root_weight ?a"
    by blast
  have "init junk draw in_ch out_ch num_rel num_b ag root_w use_bias w =
        (Inr self, w\<lparr>events := events w @ construction_events in_ch out_ch num_rel num_b root_w use_bias,
                    rng := g'\<rparr>)"
    by (simp add: init_unfold [OF v] with_rng_def res)
  moreover have "shape (weight ?a) =
        [nat ((case num_b of Some nb \<Rightarrow> nb | None \<Rightarrow> num_rel) + (if root_w then 1 else 0)),
         nat in_ch, nat out_ch]"
    by (simp add: allocated_layer_def Let_def)
  moreover have "map_option shape (comp ?a) =
        (case num_b of None \<Rightarrow> None | Some nb \<Rightarrow> Some [nat num_rel, nat nb])"
    by (simp add: allocated_layer_def split: option.splits)
  moreover have "zeros (bias ?a) =
        (if use_bias then Some \<lparr>shape = [nat out_ch], data = replicate (nat out_ch) 0\<rparr> else None)"
    by (simp add: allocated_layer_def)
  moreover have "in_channels ?a = in_ch" "out_channels ?a = out_ch" "num_relations ?a = num_rel"
    "num_bases ?a = num_b" "aggr ?a = ag" "root_weight ?a = root_w"
    by (simp_all add: allocated_layer_def)
  ultimately show ?thesis using p by auto
qed

lemma example_well_shaped: "well_shaped example_layer"
  by (simp add: well_shaped_def example_layer_def)

lemma example_valid: "valid_args 2 1 3 (Some 2) ''sum''"
  by (simp add: valid_args_def)

lemma example_layer_absent: "comp example_layer = None" "bias example_layer = None"
  by (simp_all add: example_layer_def)

lemma load_new [simp]:
  "load (s @ [d]) \<lparr>t_addr = length s, t_shape = sh\<rparr> = \<lparr>shape = sh, data = d\<rparr>"
  by (simp add: load_def)

lemma load_old [simp]: "t_addr r < length s \<Longrightarrow> load (s @ d) r = load s r"
  by (simp add: load_def nth_append)

lemma load_old2 [simp]: "t_addr r < length s \<Longrightarrow> load (s @ d @ e) r = load s r"
  by (simp add: load_def nth_append)

lemma tensor_eta [simp]: "\<lparr>shape = shape t, data = data t\<rparr> = t"
  by simp

lemma view_rows_keeps:
  "view_rows \<lparr>shape = sh, data = d\<rparr> c = Inr v \<Longrightarrow> \<lparr>shape = shape v, data = d\<rparr> = v"
  by (auto simp: view_rows_def split: if_splits)

lemma forward_st_refines:
  fixes s :: "('a::semiring_1) store"
  assumes "refs_allocated self x s"
  shows "case forward_st G x c et mnn (self, s) of
           (r, self', s') \<Rightarrow>
             self' = self \<and> length s \<le> length s' \<and> take (length s) s' = s
           \<and> allocated s' (case r of Inl e \<Rightarrow> None | Inr t \<Rightarrow> Some t)
           \<and> map_sum id (load s') r =
               forward_body G (layer_of self s) (map_option (load s) x) c et mnn"
  using assms
  apply (cases x; cases "RGCNConvAgg G"; cases "m_bias self"; cases "m_comp self")
  apply (auto simp: forward_st_def forward_body_def bind_st_def attr_def on_store_def
      new_tensor_def view_st_def lift_res_def return_st_def bind_res_def layer_of_def
      refs_allocated_def allocated_def size0_def load_def nth_append Let_def
      split: sum.splits list.splits dest: view_rows_keeps)
  done

lemma nth_concat_blocks:
  "(\<And>x. x \<in> set xs \<Longrightarrow> length (f x) = c) \<Longrightarrow> i < length xs \<Longrightarrow> j < c \<Longrightarrow>
   concat (map f xs) ! (i * c + j) = f (xs ! i) ! j"
proof (induction xs arbitrary: i)
  case Nil then show ?case by simp
next
  case (Cons x xs)
  have lx: "length (f x) = c" using Cons.prems(1) by simp
  show ?case
  proof (cases i)
    case 0
    then show ?thesis using Cons.prems(3) lx by (simp add: nth_append)
  next
    case (Suc i')
    have "concat (map f xs) ! (i' * c + j) = f (xs ! i') ! j"
      using Cons.prems Suc by (intro Cons.IH) auto
    then show ?thesis using Suc lx by (simp add: nth_append)
  qed
qed

lemma length_row_times [simp]: "length (row_times r m c w) = c"
  by (simp add: row_times_def)

lemma row_times_nth:
  "j < c \<Longrightarrow> row_times r m c w ! j = sum_list (map (\<lambda>k. r ! k * w ! (k * c + j)) [0 ..< m])"
  by (simp add: row_times_def)

lemma rows_of_nth:
  "i < n \<Longrightarrow> rows_of n m d ! i = take m (drop (i * m) d)"
  by (simp add: rows_of_def)

lemma matmul_entries:
  fixes a :: "('a::semiring_1) tensor"
  assumes a: "shape a = [n, m]" and w: "shape w = [m, c]" and la: "length (data a) = n * m"
  shows "\<exists>r. matmul a w = Inr r \<and> shape r = [n, c] \<and> length (data r) = n * c
           \<and> (\<forall>i < n. \<forall>j < c.
                 data r ! (i * c + j) =
                 sum_list (map (\<lambda>k. data a ! (i * m + k) * data w ! (k * c + j)) [0 ..< m]))"
proof -
  let ?rows = "rows_of n m (data a)"
  let ?d = "concat (map (\<lambda>r. row_times r m c (data w)) ?rows)"
  have mm: "matmul a w = Inr \<lparr>shape = [n, c], data = ?d\<rparr>"
    using a w by (simp add: matmul_def numel_def)
  have len: "length ?d = n * c"
    by (simp add: length_concat o_def rows_of_def sum_list_triv)
  have ent: "?d ! (i * c + j) =
      sum_list (map (\<lambda>k. data a ! (i * m + k) * data w ! (k * c + j)) [0 ..< m])"
    if i: "i < n" and j: "j < c" for i j
  proof -
    have "Suc i * m \<le> n * m" using i by (intro mult_le_mono1) simp
    then have bound: "i * m + m \<le> length (data a)" using la by simp
    have row: "take m (drop (i * m) (data a)) ! k = data a ! (i * m + k)" if "k < m" for k
      using that bound by simp
    have "?d ! (i * c + j) = row_times (?rows ! i) m c (data w) ! j"
      by (rule nth_concat_blocks) (use i j in \<open>simp_all add: rows_of_def\<close>)
    also have "\<dots> = sum_list (map (\<lambda>k. take m (drop (i * m) (data a)) ! k * data w ! (k * c + j)) [0 ..< m])"
      using i j by (simp add: row_times_nth rows_of_nth)
    also have "\<dots> = sum_list (map (\<lambda>k. data a ! (i * m + k) * data w ! (k * c + j)) [0 ..< m])"
    proof (rule arg_cong [where f = sum_list], rule map_cong [OF refl])
      fix k assume "k \<in> set [0 ..< m]"
      then have "k < m" by simp
      then show "take m (drop (i * m) (data a)) ! k * data w ! (k * c + j)
          = data a ! (i * m + k) * data w ! (k * c + j)"
        by (simp only: row)
    qed
    finally show ?thesis .
  qed
  show ?thesis using mm len ent by simp
qed

lemma load_extended:
  "length s \<le> length s' \<Longrightarrow> take (length s) s' = s \<Longrightarrow> t_addr r < length s \<Longrightarrow>
   load s' r = load s r"
proof -
  assume a: "length s \<le> length s'" "take (length s) s' = s" "t_addr r < length s"
  have "s' ! t_addr r = take (length s) s' ! t_addr r" using a(3) by simp
  then show ?thesis using a(2) by (simp add: load_def)
qed

lemma load_option_extended:
  "length s \<le> length s' \<Longrightarrow> take (length s) s' = s \<Longrightarrow> allocated s r \<Longrightarrow>
   map_option (load s') r = map_option (load s) r"
  by (cases r) (simp_all add: allocated_def load_extended)

lemma layer_of_extended:
  assumes "length s \<le> length s'" "take (length s) s' = s" "refs_allocated self x s"
  shows "layer_of self s' = layer_of self s"
    and "map_option (load s') x = map_option (load s) x"
    and "refs_allocated self x s'"
  using assms load_option_extended [OF assms(1,2)]
    load_extended [OF assms(1,2), of "m_weight self"]
  by (auto simp: layer_of_def refs_allocated_def allocated_def split: option.splits)

lemma example_refs: "refs_allocated example_obj None example_store"
  by (simp add: refs_allocated_def allocated_def example_obj_def example_store_def)

subsection \<open>Default features\<close>

text \<open>C1, as stated, fails: with \<^verbatim>\<open>x=None\<close> the layer does not substitute an identity
  whose size is the number of source nodes of the edge structure. On a graph of three
  nodes, the layer with two input channels returns a (2, 1) tensor for \<^verbatim>\<open>x=None\<close>, while
  the explicit 3 x 3 identity makes the matrix product raise.\<close>

theorem default_features_counterexample:
  "fst (forward example_globals None example_csc [0, 0, 0] None example_layer) \<noteq>
   fst (forward example_globals
          (Some \<lparr>shape = [inferred_num_src_nodes example_csc, inferred_num_src_nodes example_csc],
                 data = eye_data (inferred_num_src_nodes example_csc)\<rparr>)
          example_csc [0, 0, 0] None example_layer)"
  by (simp only: example_inferred example_forward_default example_forward_eye3) simp

text \<open>C1, amended: with \<^verbatim>\<open>x=None\<close> the layer substitutes the identity matrix of size
  \<^verbatim>\<open>in_channels\<close> x \<^verbatim>\<open>in_channels\<close> (line 94), whatever the edge structure, and the
  call equals the call with that identity supplied as \<^verbatim>\<open>x\<close>.\<close>

theorem forward_default_features:
  "0 \<le> in_channels self \<Longrightarrow>
   forward G None c et mnn self =
   forward G (Some \<lparr>shape = [nat (in_channels self), nat (in_channels self)],
                    data = eye_data (nat (in_channels self))\<rparr>) c et mnn self"
  by (simp add: forward_def forward_body_def torch_eye_def)

theorem forward_default_features_witness:
  "0 \<le> in_channels example_layer \<and>
   forward example_globals None example_csc [0, 0, 0] None example_layer =
   forward example_globals (Some \<lparr>shape = [2, 2], data = eye_data 2\<rparr>)
     example_csc [0, 0, 0] None example_layer"
proof -
  have h: "0 \<le> in_channels example_layer" by (simp add: example_layer_def)
  have n: "nat (in_channels example_layer) = 2" by (simp add: example_layer_def)
  show ?thesis
    using h forward_default_features [OF h, of example_globals example_csc "[0, 0, 0]" None]
    by (simp only: n)
qed

subsection \<open>Bias\<close>

text \<open>C5: the output of a layer with a bias is the output of the same layer without it, plus
  the bias under torch's broadcasting; on an output of shape (n, m) and a bias of shape
  (m) that sum adds the bias to every row; and without a bias the output is the matrix
  product of the kernel output with the viewed weight, nothing added.\<close>

theorem forward_bias_law:
  "fst (forward G x c et mnn (self\<lparr>bias := Some b\<rparr>)) =
     bind_res (fst (forward G x c et mnn (self\<lparr>bias := None\<rparr>))) (\<lambda>out. torch_add out b)
   \<and> (shape out = [n, m] \<and> shape b = [m] \<and> length (data out) = n * m \<and> length (data b) = m
        \<longrightarrow> torch_add out b =
            Inr \<lparr>shape = [n, m],
                 data = concat (map (\<lambda>r. map2 (+) r (data b)) (rows_of n m (data out)))\<rparr>)
   \<and> fst (forward G x c et mnn (self\<lparr>bias := None\<rparr>)) =
       bind_res (case x of None \<Rightarrow> torch_eye (in_channels self) | Some t \<Rightarrow> Inr t) (\<lambda>x1.
       bind_res (size0 x1) (\<lambda>n1.
       bind_res (case RGCNConvAgg G of None \<Rightarrow> Inl NameError | Some k \<Rightarrow> Inr k) (\<lambda>agg.
       bind_res (agg x1 (comp self) (get_typed_cugraph n1 c et (num_relations self) mnn)
                   (root_weight self) (aggr self = ''mean'')) (\<lambda>out0.
       bind_res (view_rows (weight self) (out_channels self)) (\<lambda>w. matmul out0 w)))))"
proof (intro conjI)
  show "fst (forward G x c et mnn (self\<lparr>bias := Some b\<rparr>)) =
     bind_res (fst (forward G x c et mnn (self\<lparr>bias := None\<rparr>))) (\<lambda>out. torch_add out b)"
    apply (cases x; cases "RGCNConvAgg G")
    apply (simp_all add: forward_def forward_body_def bind_res_def split: sum.splits)
    done
  show "shape out = [n, m] \<and> shape b = [m] \<and> length (data out) = n * m \<and> length (data b) = m
        \<longrightarrow> torch_add out b =
            Inr \<lparr>shape = [n, m],
                 data = concat (map (\<lambda>r. map2 (+) r (data b)) (rows_of n m (data out)))\<rparr>"
    using torch_add_rows [of out n m b] by blast
  show "fst (forward G x c et mnn (self\<lparr>bias := None\<rparr>)) =
       bind_res (case x of None \<Rightarrow> torch_eye (in_channels self) | Some t \<Rightarrow> Inr t) (\<lambda>x1.
       bind_res (size0 x1) (\<lambda>n1.
       bind_res (case RGCNConvAgg G of None \<Rightarrow> Inl NameError | Some k \<Rightarrow> Inr k) (\<lambda>agg.
       bind_res (agg x1 (comp self) (get_typed_cugraph n1 c et (num_relations self) mnn)
                   (root_weight self) (aggr self = ''mean'')) (\<lambda>out0.
       bind_res (view_rows (weight self) (out_channels self)) (\<lambda>w. matmul out0 w)))))"
    apply (cases x; cases "RGCNConvAgg G")
    apply (simp_all add: forward_def forward_body_def bind_res_def split: sum.splits)
    done
qed

theorem forward_bias_law_witness:
  "(shape \<lparr>shape = [2, 1], data = [1, 1 :: int]\<rparr> = [2, 1]
      \<and> shape \<lparr>shape = [1], data = [5 :: int]\<rparr> = [1]
      \<and> length (data \<lparr>shape = [2, 1], data = [1, 1 :: int]\<rparr>) = 2 * 1
      \<and> length (data \<lparr>shape = [1], data = [5 :: int]\<rparr>) = 1)
   \<and> torch_add \<lparr>shape = [2, 1], data = [1, 1 :: int]\<rparr> \<lparr>shape = [1], data = [5]\<rparr>
       = Inr \<lparr>shape = [2, 1], data = [6, 6]\<rparr>"
  using forward_bias_law [where out = "\<lparr>shape = [2, 1], data = [1, 1 :: int]\<rparr>"
          and n = 2 and m = 1 and b = "\<lparr>shape = [1], data = [5 :: int]\<rparr>",
          THEN conjunct2, THEN conjunct1]
  by (simp add: rows_of_def upt_rec)

subsection \<open>Frame and determinism\<close>

text \<open>C8: run on the object and the store, a forward call returns the object as it was and
  a store in which every storage that existed before holds what it held, so weight, comp,
  bias and the configuration fields are unchanged; the value of its output is the function
  \<open>forward_body\<close> of the inputs and the current parameter values; and a second call with
  the same inputs on the state the first one leaves returns an output of equal value.\<close>

theorem forward_frame:
  fixes s :: "('a::semiring_1) store"
  assumes "refs_allocated self x s"
  shows "case forward_st G x c et mnn (self, s) of
           (r, self', s') \<Rightarrow>
             self' = self \<and> length s \<le> length s' \<and> take (length s) s' = s
           \<and> layer_of self' s' = layer_of self s
           \<and> map_sum id (load s') r =
               forward_body G (layer_of self s) (map_option (load s) x) c et mnn
           \<and> (case forward_st G x c et mnn (self', s') of
                 (r2, self2, s2) \<Rightarrow>
                   self2 = self \<and> take (length s') s2 = s'
                 \<and> map_sum id (load s2) r2 = map_sum id (load s') r)"
proof -
  obtain r self' s' where f: "forward_st G x c et mnn (self, s) = (r, self', s')"
    by (cases "forward_st G x c et mnn (self, s)") auto
  from forward_st_refines [OF assms, of G c et mnn] f
  have 1: "self' = self" "length s \<le> length s'" "take (length s) s' = s"
    and v1: "map_sum id (load s') r =
               forward_body G (layer_of self s) (map_option (load s) x) c et mnn"
    by simp_all
  note e = layer_of_extended [OF 1(2,3) assms]
  obtain r2 self2 s2 where f2: "forward_st G x c et mnn (self, s') = (r2, self2, s2)"
    by (cases "forward_st G x c et mnn (self, s')") auto
  from forward_st_refines [OF e(3), of G c et mnn] f2
  have 2: "self2 = self" "take (length s') s2 = s'"
    and v2: "map_sum id (load s2) r2 =
               forward_body G (layer_of self s') (map_option (load s') x) c et mnn"
    by simp_all
  have "map_sum id (load s2) r2 = map_sum id (load s') r"
    by (simp only: v1 v2 e(1,2))
  then show ?thesis using f f2 1 2 v1 e(1) by simp
qed

theorem forward_frame_witness:
  "refs_allocated example_obj None example_store \<and>
   (case forward_st example_globals None example_csc [0, 0, 0] None (example_obj, example_store) of
      (r, self', s') \<Rightarrow>
        self' = example_obj \<and> take (length example_store) s' = example_store
      \<and> layer_of self' s' = layer_of example_obj example_store
      \<and> map_sum id (load s') r =
          forward_body example_globals (layer_of example_obj example_store) None
            example_csc [0, 0, 0] None)"
  using example_refs
    forward_frame [OF example_refs, of example_globals example_csc "[0, 0, 0]" None]
  by (auto split: prod.splits)

subsection \<open>sum and add\<close>

text \<open>C9: two layers that differ only in \<^verbatim>\<open>aggr\<close>, one with \<^verbatim>\<open>"sum"\<close> and one with
  \<^verbatim>\<open>"add"\<close>, give the same forward output on every input.\<close>

theorem forward_sum_add:
  "fst (forward G x c et mnn (self\<lparr>aggr := ''sum''\<rparr>)) =
   fst (forward G x c et mnn (self\<lparr>aggr := ''add''\<rparr>))"
  by (cases x) (simp_all add: forward_def forward_body_def)

subsection \<open>The kernel call\<close>

text \<open>C4: forward calls the kernel with the feature tensor, the comp parameter (absent
  when there is no basis decomposition), the graph handle, \<^verbatim>\<open>concat_own\<close> equal to
  \<^verbatim>\<open>root_weight\<close> and \<^verbatim>\<open>norm_by_out_degree\<close> equal to the test \<^verbatim>\<open>aggr == "mean"\<close>,
  which is false for sum and add; the kernel output is then multiplied from the right by
  the weight viewed as a matrix with \<^verbatim>\<open>out_channels\<close> columns. For a weight of shape
  (B, I, O) the view has shape (B * I, O) and the same data; the product of an (N, M) by
  an (M, C) matrix has at row i and column j the sum over l of the products of entry
  (i, l) of the left and entry (l, j) of the right operand; so, without a bias, entry
  (i, j) of the output of forward is the sum over l of kernel output (i, l) times weight
  data at l * O + j.\<close>

theorem forward_kernel_call:
  fixes self :: "('a::semiring_1) layer"
  shows
  "((case x of None \<Rightarrow> torch_eye (in_channels self) | Some t \<Rightarrow> Inr t) = Inr x1
      \<and> size0 x1 = Inr n
      \<longrightarrow> fst (forward \<lparr>RGCNConvAgg = Some k\<rparr> x c et mnn self) =
            bind_res (k x1 (comp self) (get_typed_cugraph n c et (num_relations self) mnn)
                        (root_weight self) (aggr self = ''mean'')) (\<lambda>out.
            bind_res (view_rows (weight self) (out_channels self)) (\<lambda>w.
            bind_res (matmul out w) (\<lambda>out1.
              case bias self of None \<Rightarrow> Inr out1 | Some b \<Rightarrow> torch_add out1 b))))
   \<and> ((case x of None \<Rightarrow> torch_eye (in_channels self) | Some t \<Rightarrow> Inr t) = Inr x1
      \<and> size0 x1 = Inr n \<and> aggr self \<in> {''sum'', ''add''}
      \<longrightarrow> fst (forward \<lparr>RGCNConvAgg = Some k\<rparr> x c et mnn self) =
            bind_res (k x1 (comp self) (get_typed_cugraph n c et (num_relations self) mnn)
                        (root_weight self) False) (\<lambda>out.
            bind_res (view_rows (weight self) (out_channels self)) (\<lambda>w.
            bind_res (matmul out w) (\<lambda>out1.
              case bias self of None \<Rightarrow> Inr out1 | Some b \<Rightarrow> torch_add out1 b))))
   \<and> (shape (weight self) = [B, I, nat (out_channels self)] \<and> 0 < out_channels self
      \<longrightarrow> view_rows (weight self) (out_channels self) =
            Inr \<lparr>shape = [B * I, nat (out_channels self)], data = data (weight self)\<rparr>)
   \<and> (shape out = [N, M] \<and> shape w = [M, C] \<and> length (data out) = N * M
      \<longrightarrow> (\<exists>r. matmul out w = Inr r \<and> shape r = [N, C] \<and> length (data r) = N * C
             \<and> (\<forall>i < N. \<forall>j < C.
                   data r ! (i * C + j) =
                   sum_list (map (\<lambda>l. data out ! (i * M + l) * data w ! (l * C + j)) [0 ..< M]))))
   \<and> ((case x of None \<Rightarrow> torch_eye (in_channels self) | Some t \<Rightarrow> Inr t) = Inr x1
      \<and> size0 x1 = Inr n
      \<and> k x1 (comp self) (get_typed_cugraph n c et (num_relations self) mnn)
            (root_weight self) (aggr self = ''mean'') = Inr out
      \<and> shape out = [N, B * I] \<and> length (data out) = N * (B * I)
      \<and> shape (weight self) = [B, I, nat (out_channels self)] \<and> 0 < out_channels self
      \<and> bias self = None
      \<longrightarrow> (\<exists>r. fst (forward \<lparr>RGCNConvAgg = Some k\<rparr> x c et mnn self) = Inr r
             \<and> shape r = [N, nat (out_channels self)]
             \<and> (\<forall>i < N. \<forall>j < nat (out_channels self).
                   data r ! (i * nat (out_channels self) + j) =
                   sum_list (map (\<lambda>l. data out ! (i * (B * I) + l)
                                        * data (weight self) ! (l * nat (out_channels self) + j))
                                 [0 ..< B * I]))))"
proof -
  have A: "fst (forward \<lparr>RGCNConvAgg = Some k\<rparr> x c et mnn self) =
            bind_res (k x1 (comp self) (get_typed_cugraph n c et (num_relations self) mnn)
                        (root_weight self) (aggr self = ''mean'')) (\<lambda>out.
            bind_res (view_rows (weight self) (out_channels self)) (\<lambda>w.
            bind_res (matmul out w) (\<lambda>out1.
              case bias self of None \<Rightarrow> Inr out1 | Some b \<Rightarrow> torch_add out1 b)))"
    if "(case x of None \<Rightarrow> torch_eye (in_channels self) | Some t \<Rightarrow> Inr t) = Inr x1"
      "size0 x1 = Inr n"
    using that by (simp add: forward_def forward_body_def)
  have V: "view_rows (weight self) (out_channels self) =
            Inr \<lparr>shape = [B * I, nat (out_channels self)], data = data (weight self)\<rparr>"
    if a: "shape (weight self) = [B, I, nat (out_channels self)]" "0 < out_channels self" for B I
  proof -
    have "0 < nat (out_channels self)" using a(2) by simp
    then show ?thesis using a by (simp add: view_rows_def numel_def mult.assoc [symmetric])
  qed
  have E: "\<exists>r. fst (forward \<lparr>RGCNConvAgg = Some k\<rparr> x c et mnn self) = Inr r
             \<and> shape r = [N, nat (out_channels self)]
             \<and> (\<forall>i < N. \<forall>j < nat (out_channels self).
                   data r ! (i * nat (out_channels self) + j) =
                   sum_list (map (\<lambda>l. data out ! (i * (B * I) + l)
                                        * data (weight self) ! (l * nat (out_channels self) + j))
                                 [0 ..< B * I]))"
    if h: "(case x of None \<Rightarrow> torch_eye (in_channels self) | Some t \<Rightarrow> Inr t) = Inr x1"
      "size0 x1 = Inr n"
      "k x1 (comp self) (get_typed_cugraph n c et (num_relations self) mnn)
            (root_weight self) (aggr self = ''mean'') = Inr out"
      "shape out = [N, B * I]" "length (data out) = N * (B * I)"
      "shape (weight self) = [B, I, nat (out_channels self)]" "0 < out_channels self"
      "bias self = None"
  proof -
    let ?w = "\<lparr>shape = [B * I, nat (out_channels self)], data = data (weight self)\<rparr>"
    from matmul_entries [of out N "B * I" ?w "nat (out_channels self)"] h(4,5)
    obtain r where r: "matmul out ?w = Inr r" "shape r = [N, nat (out_channels self)]"
      "\<forall>i < N. \<forall>j < nat (out_channels self).
         data r ! (i * nat (out_channels self) + j) =
         sum_list (map (\<lambda>l. data out ! (i * (B * I) + l)
                              * data ?w ! (l * nat (out_channels self) + j)) [0 ..< B * I])"
      by auto
    have "fst (forward \<lparr>RGCNConvAgg = Some k\<rparr> x c et mnn self) = Inr r"
      by (simp add: A [OF h(1,2)] h(3) V [OF h(6,7)] r(1) h(8))
    then show ?thesis using r(2,3) by simp
  qed
  show ?thesis
    apply (intro conjI impI)
    subgoal by (rule A) simp_all
    subgoal using A [of ] by auto
    subgoal by (rule V) simp_all
    subgoal using matmul_entries [of out N M w C] by simp
    subgoal by (rule E) simp_all
    done
qed

theorem forward_kernel_call_witness:
  "fst (forward \<lparr>RGCNConvAgg = Some example_kernel2\<rparr> None example_csc [0, 0, 0] None example_layer2)
     = Inr \<lparr>shape = [2, 1], data = [210, 430]\<rparr>
   \<and> view_rows (weight example_layer2) 1 = Inr \<lparr>shape = [2, 1], data = [10, 100]\<rparr>
   \<and> (\<exists>r. matmul \<lparr>shape = [2, 2], data = [1, 2, 3, 4]\<rparr> \<lparr>shape = [2, 1], data = [10, 100 :: int]\<rparr>
             = Inr r \<and> data r ! 0 = 210 \<and> data r ! 1 = 430)
   \<and> (\<exists>r. fst (forward \<lparr>RGCNConvAgg = Some example_kernel2\<rparr> None example_csc [0, 0, 0] None
                  example_layer2) = Inr r
          \<and> shape r = [2, 1] \<and> data r ! 0 = 210 \<and> data r ! 1 = 430)"
proof -
  let ?e = "\<lparr>shape = [2, 2], data = eye_data 2\<rparr> :: int tensor"
  let ?K = "\<lparr>shape = [2, 2], data = [1, 2, 3, 4]\<rparr> :: int tensor"
  let ?W = "\<lparr>shape = [2, 1], data = [10, 100]\<rparr> :: int tensor"
  note t = forward_kernel_call [where x = None and self = example_layer2 and ?x1.0 = ?e
      and n = 2 and k = example_kernel2 and c = example_csc and et = "[0, 0, 0]" and mnn = None
      and B = 1 and I = 2 and out = ?K and N = 2 and M = 2 and w = ?W and C = 1]
  have h1: "(case None of None \<Rightarrow> torch_eye (in_channels example_layer2) | Some t \<Rightarrow> Inr t) = Inr ?e"
    by (simp add: torch_eye_def example_layer2_def)
  have h2: "size0 ?e = Inr 2" by (simp add: size0_def)
  have h3: "aggr example_layer2 \<in> {''sum'', ''add''}" by (simp add: example_layer2_def)
  have h4: "shape (weight example_layer2) = [1, 2, nat (out_channels example_layer2)]"
    "0 < out_channels example_layer2" "bias example_layer2 = None"
    by (simp_all add: example_layer2_def)
  have h5: "shape ?K = [2, 2]" "shape ?W = [2, 1]" "length (data ?K) = 2 * 2" by simp_all
  have h6: "example_kernel2 ?e (comp example_layer2)
              (get_typed_cugraph 2 example_csc [0, 0, 0] (num_relations example_layer2) None)
              (root_weight example_layer2) (aggr example_layer2 = ''mean'') = Inr ?K"
    by (simp add: example_kernel2_def)
  have oc: "nat (out_channels example_layer2) = 1" "out_channels example_layer2 = 1"
    by (simp_all add: example_layer2_def)
  have v: "view_rows (weight example_layer2) 1 = Inr ?W"
    using t [THEN conjunct2, THEN conjunct2, THEN conjunct1, rule_format, OF conjI [OF h4(1,2)]]
    by (simp add: oc) (simp add: example_layer2_def)
  from t [THEN conjunct2, THEN conjunct2, THEN conjunct2, THEN conjunct1, rule_format,
          OF conjI [OF h5(1) conjI [OF h5(2,3)]]]
  obtain r where r: "matmul ?K ?W = Inr r" "shape r = [2, 1]"
    "\<forall>i<2. \<forall>j<1. data r ! (i * 1 + j) =
        sum_list (map (\<lambda>l. data ?K ! (i * 2 + l) * data ?W ! (l * 1 + j)) [0 ..< 2])"
    by blast
  have r0: "data r ! 0 = 210" using r(3) [rule_format, of 0 0] by (simp add: upt_rec)
  have r1: "data r ! 1 = 430" using r(3) [rule_format, of 1 0] by (simp add: upt_rec)
  have rr: "r = \<lparr>shape = [2, 1], data = [210, 430]\<rparr>"
    using r(1) by (simp add: matmul_def numel_def rows_of_def row_times_def upt_rec)
  have a: "fst (forward \<lparr>RGCNConvAgg = Some example_kernel2\<rparr> None example_csc [0, 0, 0] None
              example_layer2) = Inr r"
    using t [THEN conjunct1, rule_format, OF conjI [OF h1 h2]]
    by (simp add: h6 v oc h4(3) rr matmul_def numel_def rows_of_def row_times_def upt_rec)
  have b: "fst (forward \<lparr>RGCNConvAgg = Some example_kernel2\<rparr> None example_csc [0, 0, 0] None
              example_layer2) = Inr r"
    using t [THEN conjunct2, THEN conjunct1, rule_format, OF conjI [OF h1 conjI [OF h2 h3]]]
    by (simp add: example_kernel2_def v oc h4(3) rr matmul_def numel_def rows_of_def row_times_def upt_rec)
  have hE: "(case None of None \<Rightarrow> torch_eye (in_channels example_layer2) | Some t \<Rightarrow> Inr t) = Inr ?e
      \<and> size0 ?e = Inr 2
      \<and> example_kernel2 ?e (comp example_layer2)
              (get_typed_cugraph 2 example_csc [0, 0, 0] (num_relations example_layer2) None)
              (root_weight example_layer2) (aggr example_layer2 = ''mean'') = Inr ?K
      \<and> shape ?K = [2, 1 * 2] \<and> length (data ?K) = 2 * (1 * 2)
      \<and> shape (weight example_layer2) = [1, 2, nat (out_channels example_layer2)]
      \<and> 0 < out_channels example_layer2 \<and> bias example_layer2 = None"
    using h1 h2 h6 h4 by simp
  from t [THEN conjunct2, THEN conjunct2, THEN conjunct2, THEN conjunct2, rule_format, OF hE]
  obtain r' where e: "fst (forward \<lparr>RGCNConvAgg = Some example_kernel2\<rparr> None example_csc
        [0, 0, 0] None example_layer2) = Inr r'"
      "shape r' = [2, nat (out_channels example_layer2)]"
    by blast
  from e(1) a have "r' = r" by simp
  with e(2) have "shape r = [2, 1]" by (simp add: oc)
  then show ?thesis using a b v r(1) rr r0 r1 by simp
qed

subsection \<open>Construction\<close>

text \<open>C2: with an aggregation among sum, add and mean (and arguments within the
  constructor's contract) construction succeeds; with any other aggregation it raises
  \<^verbatim>\<open>ValueError\<close> and leaves the world as it was: no tensor allocated, no attribute set,
  the generator untouched.\<close>

theorem init_aggr_check:
  fixes junk :: "nat \<Rightarrow> ('a::zero)"
  shows
  "(ag \<in> {''sum'', ''add'', ''mean''} \<and> 0 < in_ch \<and> 0 < out_ch \<and> 0 < num_rel
      \<and> (case num_b of None \<Rightarrow> True | Some nb \<Rightarrow> 0 < nb)
      \<longrightarrow> (\<exists>self w'. init junk draw in_ch out_ch num_rel num_b ag root_w use_bias w = (Inr self, w')))
   \<and> (ag \<notin> {''sum'', ''add'', ''mean''}
      \<longrightarrow> init junk draw in_ch out_ch num_rel num_b ag root_w use_bias w = (Inl ValueError, w))"
proof (intro conjI impI)
  assume "ag \<in> {''sum'', ''add'', ''mean''} \<and> 0 < in_ch \<and> 0 < out_ch \<and> 0 < num_rel
      \<and> (case num_b of None \<Rightarrow> True | Some nb \<Rightarrow> 0 < nb)"
  then have "valid_args in_ch out_ch num_rel num_b ag" by (simp add: valid_args_def)
  from init_result [OF this, of junk draw root_w use_bias w]
  show "\<exists>self w'. init junk draw in_ch out_ch num_rel num_b ag root_w use_bias w = (Inr self, w')"
    by blast
next
  assume "ag \<notin> {''sum'', ''add'', ''mean''}"
  then show "init junk draw in_ch out_ch num_rel num_b ag root_w use_bias w = (Inl ValueError, w)"
    by (simp add: init_def CuGraphModule_init_def raise_st_def)
qed

theorem init_aggr_check_witness:
  "(\<exists>self w'. init example_junk example_draw 2 1 3 (Some 2) ''sum'' True True example_world
                = (Inr self, w'))
   \<and> init example_junk example_draw 2 1 3 (Some 2) ''max'' True True example_world
       = (Inl ValueError, example_world)"
  using init_aggr_check [of "''sum''" 2 1 3 "Some 2" example_junk example_draw True True example_world]
        init_aggr_check [of "''max''" 2 1 3 "Some 2" example_junk example_draw True True example_world]
  by simp

text \<open>C3: a valid construction yields a weight of shape (Bn + r, I, O) when the number of
  bases Bn is given and (R + r, I, O) otherwise, where r is 1 with a root weight and 0
  without; a comp of shape (R, Bn) when Bn is given and none otherwise; a bias of shape
  (O) when requested and none otherwise.\<close>

theorem init_shapes:
  fixes junk :: "nat \<Rightarrow> ('a::zero)"
  assumes "valid_args in_ch out_ch num_rel num_b ag"
  shows "\<exists>self w'.
      init junk draw in_ch out_ch num_rel num_b ag root_w use_bias w = (Inr self, w')
    \<and> shape (weight self) =
        [nat ((case num_b of Some nb \<Rightarrow> nb | None \<Rightarrow> num_rel) + (if root_w then 1 else 0)),
         nat in_ch, nat out_ch]
    \<and> (case num_b of
         Some nb \<Rightarrow> (\<exists>c. comp self = Some c \<and> shape c = [nat num_rel, nat nb])
       | None \<Rightarrow> comp self = None)
    \<and> (if use_bias then \<exists>t. bias self = Some t \<and> shape t = [nat out_ch]
        else bias self = None)"
proof -
  from init_result [OF assms, of junk draw root_w use_bias w]
  obtain self g' where
    "init junk draw in_ch out_ch num_rel num_b ag root_w use_bias w =
        (Inr self, w\<lparr>events := events w @ construction_events in_ch out_ch num_rel num_b root_w use_bias,
                    rng := g'\<rparr>)"
    and "shape (weight self) =
        [nat ((case num_b of Some nb \<Rightarrow> nb | None \<Rightarrow> num_rel) + (if root_w then 1 else 0)),
         nat in_ch, nat out_ch]"
    and "map_option shape (comp self) =
        (case num_b of None \<Rightarrow> None | Some nb \<Rightarrow> Some [nat num_rel, nat nb])"
    and "bias self =
        (if use_bias then Some \<lparr>shape = [nat out_ch], data = replicate (nat out_ch) 0\<rparr> else None)"
    by blast
  then show ?thesis
    by (intro exI [of _ self] exI [of _ "w\<lparr>events := events w @ construction_events in_ch out_ch num_rel num_b root_w use_bias, rng := g'\<rparr>"])
       (auto split: option.splits)
qed

theorem init_shapes_witness:
  "valid_args 2 1 3 (Some 2) ''sum'' \<and>
   (\<exists>self w'.
      init example_junk example_draw 2 1 3 (Some 2) ''sum'' True True example_world = (Inr self, w')
    \<and> shape (weight self) = [3, 2, 1]
    \<and> (\<exists>c. comp self = Some c \<and> shape c = [3, 2])
    \<and> (\<exists>t. bias self = Some t \<and> shape t = [1]))"
  using example_valid
        init_shapes [OF example_valid, of example_junk example_draw True True example_world]
  by simp

text \<open>C6: without the kernel installed, importing the module succeeds and leaves the name
  unbound, construction succeeds, and every forward call that gets as far as the kernel
  call raises \<^verbatim>\<open>NameError\<close>, which is returned as it is.\<close>

theorem missing_kernel_error_at_forward:
  fixes junk :: "nat \<Rightarrow> ('a::semiring_1)"
  shows
  "import_module (None :: 'a kernel option) = Inr \<lparr>RGCNConvAgg = None\<rparr>
   \<and> (valid_args in_ch out_ch num_rel num_b ag \<longrightarrow>
       (\<exists>self w'.
          init junk draw in_ch out_ch num_rel num_b ag root_w use_bias w = (Inr self, w')
        \<and> (\<forall>x c et mnn.
             (case x of None \<Rightarrow> True | Some t \<Rightarrow> shape t \<noteq> []) \<longrightarrow>
             forward \<lparr>RGCNConvAgg = None\<rparr> x c et mnn self = (Inl NameError, self))))"
proof (intro conjI impI)
  show "import_module (None :: 'a kernel option) = Inr \<lparr>RGCNConvAgg = None\<rparr>"
    by (simp add: import_module_def try_import_def)
next
  assume v: "valid_args in_ch out_ch num_rel num_b ag"
  from init_result [OF v, of junk draw root_w use_bias w]
  obtain self w' where i: "init junk draw in_ch out_ch num_rel num_b ag root_w use_bias w = (Inr self, w')"
    and ic: "in_channels self = in_ch"
    by blast
  have pos: "0 \<le> in_channels self" using v ic by (simp add: valid_args_def)
  have "forward \<lparr>RGCNConvAgg = None\<rparr> x c et mnn self = (Inl NameError, self)"
    if "case x of None \<Rightarrow> True | Some t \<Rightarrow> shape t \<noteq> []" for x c et mnn
    using that pos
    by (cases x) (auto simp: forward_def forward_body_def torch_eye_def size0_def split: list.splits)
  with i show "\<exists>self w'.
          init junk draw in_ch out_ch num_rel num_b ag root_w use_bias w = (Inr self, w')
        \<and> (\<forall>x c et mnn.
             (case x of None \<Rightarrow> True | Some t \<Rightarrow> shape t \<noteq> []) \<longrightarrow>
             forward \<lparr>RGCNConvAgg = None\<rparr> x c et mnn self = (Inl NameError, self))"
    by blast
qed

theorem missing_kernel_error_at_forward_witness:
  "import_module (None :: int kernel option) = Inr \<lparr>RGCNConvAgg = None\<rparr>
   \<and> valid_args 2 1 3 (Some 2) ''sum''
   \<and> (\<exists>self w'.
         init example_junk example_draw 2 1 3 (Some 2) ''sum'' True True example_world = (Inr self, w')
       \<and> forward \<lparr>RGCNConvAgg = None\<rparr> None example_csc [0, 0, 0] None self = (Inl NameError, self))"
proof -
  note t = missing_kernel_error_at_forward [where in_ch = 2 and out_ch = 1 and num_rel = 3
      and num_b = "Some 2" and ag = "''sum''" and junk = example_junk and draw = example_draw
      and root_w = True and use_bias = True and w = example_world]
  from t [THEN conjunct2, rule_format, OF example_valid]
  obtain self w' where
    i: "init example_junk example_draw 2 1 3 (Some 2) ''sum'' True True example_world = (Inr self, w')"
    and f: "\<forall>x c et mnn. (case x of None \<Rightarrow> True | Some t \<Rightarrow> shape t \<noteq> []) \<longrightarrow>
             forward \<lparr>RGCNConvAgg = None\<rparr> x c et mnn self = (Inl NameError, self)"
    by blast
  from f [rule_format, of None example_csc "[0, 0, 0]" None]
  have "forward \<lparr>RGCNConvAgg = None\<rparr> None example_csc [0, 0, 0] None self
      = (Inl NameError, self)"
    by simp
  with i t [THEN conjunct1] example_valid show ?thesis by blast
qed

subsection \<open>reset\_parameters\<close>

text \<open>C7: on a layer shaped as the constructor shapes it, \<^verbatim>\<open>reset_parameters\<close> returns a
  layer whose leading weight slices (all but the last with a root weight, all without)
  are the Glorot fill of the old ones, whose comp is the Glorot fill of the old comp
  (absent stays absent), whose last weight slice, with a root weight, is a Glorot fill of
  its own drawn after the others, and whose bias, when present, is all zeros; hence after
  a valid construction the bias is absent or exactly zero.\<close>

theorem reset_parameters_initialises:
  fixes self :: "('a::zero) layer" and junk :: "nat \<Rightarrow> 'a"
  shows
  "(well_shaped self \<longrightarrow>
     (\<exists>f f1 g1 g2 self' g'.
        reset_parameters draw self g = (Inr self', g')
      \<and> slice_front (weight self) (root_weight self) = Inr f
      \<and> glorot draw (Some f) g = (Inr (Some f1), g1)
      \<and> slice_front (weight self') (root_weight self) = Inr f1
      \<and> glorot draw (comp self) g1 = (Inr (comp self'), g2)
      \<and> (if root_weight self
          then \<exists>l l1. select_last (weight self) = Inr l
                    \<and> glorot draw (Some l) g2 = (Inr (Some l1), g')
                    \<and> select_last (weight self') = Inr l1
          else g' = g2 \<and> weight self' = f1)
      \<and> bias self' =
          (case bias self of
             None \<Rightarrow> None
           | Some t \<Rightarrow> Some (t\<lparr>data := replicate (length (data t)) 0\<rparr>))))
   \<and> (valid_args in_ch out_ch num_rel num_b ag \<longrightarrow>
       (\<exists>self w'.
          init junk draw in_ch out_ch num_rel num_b ag root_w use_bias w = (Inr self, w')
        \<and> bias self =
            (if use_bias then Some \<lparr>shape = [nat out_ch], data = replicate (nat out_ch) 0\<rparr>
             else None)))"
proof (intro conjI impI)
  assume ws: "well_shaped self"
  then obtain b i oc where w: "shape (weight self) = [b, i, oc]"
    and len: "length (data (weight self)) = b * (i * oc)"
    and rw': "root_weight self \<longrightarrow> 0 < b"
    and cp: "case comp self of None \<Rightarrow> True | Some c \<Rightarrow> 2 \<le> length (shape c)"
    by (rule well_shapedD)
  from rw' have rw: "root_weight self \<Longrightarrow> 0 < b" by simp
  from reset_parameters_steps [OF w len rw cp, of draw g]
  obtain f f1 g1 c1 g2 self' g' where
    a: "slice_front (weight self) (root_weight self) = Inr f"
      "glorot draw (Some f) g = (Inr (Some f1), g1)"
      "glorot draw (comp self) g1 = (Inr c1, g2)"
      "reset_parameters draw self g = (Inr self', g')"
      "slice_front (weight self') (root_weight self) = Inr f1"
    and eq: "self' = self\<lparr>weight := weight self', comp := c1, bias := zeros (bias self)\<rparr>"
    and r: "if root_weight self
        then \<exists>l l1. select_last (weight self) = Inr l
                  \<and> glorot draw (Some l) g2 = (Inr (Some l1), g')
                  \<and> select_last (weight self') = Inr l1
        else g' = g2 \<and> weight self' = f1"
    by blast
  have c: "comp self' = c1" "bias self' = zeros (bias self)"
    by (subst eq, simp)+
  have z: "zeros (bias self) =
      (case bias self of None \<Rightarrow> None | Some t \<Rightarrow> Some (t\<lparr>data := replicate (length (data t)) 0\<rparr>))"
    by (simp add: zeros_def)
  show "\<exists>f f1 g1 g2 self' g'.
        reset_parameters draw self g = (Inr self', g')
      \<and> slice_front (weight self) (root_weight self) = Inr f
      \<and> glorot draw (Some f) g = (Inr (Some f1), g1)
      \<and> slice_front (weight self') (root_weight self) = Inr f1
      \<and> glorot draw (comp self) g1 = (Inr (comp self'), g2)
      \<and> (if root_weight self
          then \<exists>l l1. select_last (weight self) = Inr l
                    \<and> glorot draw (Some l) g2 = (Inr (Some l1), g')
                    \<and> select_last (weight self') = Inr l1
          else g' = g2 \<and> weight self' = f1)
      \<and> bias self' =
          (case bias self of
             None \<Rightarrow> None
           | Some t \<Rightarrow> Some (t\<lparr>data := replicate (length (data t)) 0\<rparr>))"
    apply (rule exI [of _ f], rule exI [of _ f1], rule exI [of _ g1], rule exI [of _ g2])
    apply (rule exI [of _ self'], rule exI [of _ g'])
    using a r c z by simp
next
  assume "valid_args in_ch out_ch num_rel num_b ag"
  from init_result [OF this, of junk draw root_w use_bias w]
  show "\<exists>self w'.
          init junk draw in_ch out_ch num_rel num_b ag root_w use_bias w = (Inr self, w')
        \<and> bias self =
            (if use_bias then Some \<lparr>shape = [nat out_ch], data = replicate (nat out_ch) 0\<rparr>
             else None)"
    by blast
qed

theorem reset_parameters_initialises_witness:
  "well_shaped example_layer
   \<and> (\<exists>self' g'. reset_parameters example_draw example_layer (0::nat) = (Inr self', g')
         \<and> bias self' = None)
   \<and> valid_args 2 1 3 (Some 2) ''sum''
   \<and> (\<exists>self w'.
         init example_junk example_draw 2 1 3 (Some 2) ''sum'' True True example_world = (Inr self, w')
       \<and> bias self = Some \<lparr>shape = [1], data = [0]\<rparr>)"
proof -
  note t = reset_parameters_initialises [where self = example_layer and draw = example_draw
      and g = "0::nat" and in_ch = 2 and out_ch = 1 and num_rel = 3 and num_b = "Some 2"
      and ag = "''sum''" and junk = example_junk and root_w = True and use_bias = True
      and w = example_world]
  from t [THEN conjunct1, rule_format, OF example_well_shaped]
  have a: "\<exists>self' g'. reset_parameters example_draw example_layer (0::nat) = (Inr self', g')
         \<and> bias self' = None"
    by (auto simp: example_layer_absent)
  from t [THEN conjunct2, rule_format, OF example_valid]
  have b: "\<exists>self w'.
         init example_junk example_draw 2 1 3 (Some 2) ''sum'' True True example_world = (Inr self, w')
       \<and> bias self = Some \<lparr>shape = [1], data = [0]\<rparr>"
    by simp
  show ?thesis using a b example_well_shaped example_valid by simp
qed

text \<open>C10: on every layer shaped as the constructor shapes it, \<^verbatim>\<open>reset_parameters\<close>
  returns normally, also when comp or bias are absent: the initialisers take the absent
  parameter as a no-op, and an absent parameter is absent afterwards. Every valid
  construction reaches the reset with a layer of that shape.\<close>

theorem reset_parameters_total:
  fixes self :: "('a::zero) layer" and junk :: "nat \<Rightarrow> 'a"
  shows
  "(well_shaped self \<longrightarrow>
     (\<exists>self' g'. reset_parameters draw self g = (Inr self', g')
        \<and> (comp self = None \<longrightarrow> comp self' = None)
        \<and> (bias self = None \<longrightarrow> bias self' = None)))
   \<and> glorot draw None g = (Inr None, g)
   \<and> zeros (None :: 'a tensor option) = None
   \<and> (valid_args in_ch out_ch num_rel num_b ag \<longrightarrow>
        well_shaped (allocated_layer junk in_ch out_ch num_rel num_b ag root_w use_bias))"
proof (intro conjI impI)
  assume "well_shaped self"
  from reset_parameters_well_shaped [OF this, of draw g]
  obtain self' g' where "reset_parameters draw self g = (Inr self', g')"
    "comp self = None \<longleftrightarrow> comp self' = None" "bias self' = zeros (bias self)"
    by (elim exE conjE) (rule that, assumption+)
  then show "\<exists>self' g'. reset_parameters draw self g = (Inr self', g')
        \<and> (comp self = None \<longrightarrow> comp self' = None)
        \<and> (bias self = None \<longrightarrow> bias self' = None)"
    by (intro exI [of _ self'] exI [of _ g']) simp
next
  assume "valid_args in_ch out_ch num_rel num_b ag"
  then show "well_shaped (allocated_layer junk in_ch out_ch num_rel num_b ag root_w use_bias)"
    by (rule allocated_well_shaped)
qed simp_all

theorem reset_parameters_total_witness:
  "well_shaped example_layer
   \<and> (\<exists>self' g'. reset_parameters example_draw example_layer (0::nat) = (Inr self', g')
         \<and> comp self' = None \<and> bias self' = None)
   \<and> valid_args 2 1 3 (Some 2) ''sum''
   \<and> well_shaped (allocated_layer example_junk 2 1 3 (Some 2) ''sum'' True True)"
proof -
  note t = reset_parameters_total [where self = example_layer and draw = example_draw
      and g = "0::nat" and in_ch = 2 and out_ch = 1 and num_rel = 3 and num_b = "Some 2"
      and ag = "''sum''" and junk = example_junk and root_w = True and use_bias = True]
  from t [THEN conjunct1, rule_format, OF example_well_shaped]
  have a: "\<exists>self' g'. reset_parameters example_draw example_layer (0::nat) = (Inr self', g')
         \<and> comp self' = None \<and> bias self' = None"
    by (auto simp: example_layer_absent)
  from t [THEN conjunct2, THEN conjunct2, THEN conjunct2, rule_format, OF example_valid]
  have b: "well_shaped (allocated_layer example_junk 2 1 3 (Some 2) ''sum'' True True)" .
  show ?thesis using a b example_well_shaped example_valid by simp
qed

end
